theory Spec2Isabelle
  imports Complex_Main
begin

section \<open>Python primitives used by the orchestration system\<close>

text \<open>
  Texts are Python \<open>str\<close> values. They are modelled as \<open>string\<close> (lists of
  \<open>char\<close>), read as ASCII text: \<open>lower\<close>, \<open>upper\<close> and the whitespace class act
  on the ASCII letters and the ASCII whitespace characters as Python does, and leave
  every other character alone. Python floats are modelled as exact reals: rounding is
  not part of the model.
\<close>

definition nl :: char where
  "nl = CHR 0x0A"

text \<open>\<open>str.isspace\<close> on one ASCII character: tab, line feed, vertical tab, form feed,
  carriage return, the four separators 0x1C..0x1F, and the blank.\<close>

definition is_space :: "char \<Rightarrow> bool" where
  "is_space c = (let n = (of_char c :: nat) in (9 \<le> n \<and> n \<le> 13) \<or> (28 \<le> n \<and> n \<le> 32))"

definition is_digit :: "char \<Rightarrow> bool" where
  "is_digit c = (let n = (of_char c :: nat) in 48 \<le> n \<and> n \<le> 57)"

definition upper_letters :: string where
  "upper_letters = ''ABCDEFGHIJKLMNOPQRSTUVWXYZ''"

definition lower_letters :: string where
  "lower_letters = ''abcdefghijklmnopqrstuvwxyz''"

definition lower_char :: "char \<Rightarrow> char" where
  "lower_char c = (case map_of (zip upper_letters lower_letters) c of Some d \<Rightarrow> d | None \<Rightarrow> c)"

definition upper_char :: "char \<Rightarrow> char" where
  "upper_char c = (case map_of (zip lower_letters upper_letters) c of Some d \<Rightarrow> d | None \<Rightarrow> c)"

definition lower :: "string \<Rightarrow> string" where
  "lower s = map lower_char s"

definition upper :: "string \<Rightarrow> string" where
  "upper s = map upper_char s"

text \<open>\<open>s.strip()\<close>: whitespace removed at both ends.\<close>

definition strip :: "string \<Rightarrow> string" where
  "strip s = rev (dropWhile is_space (rev (dropWhile is_space s)))"

definition startswith :: "string \<Rightarrow> string \<Rightarrow> bool" where
  "startswith s sub = (take (length sub) s = sub)"

text \<open>\<open>sub in s\<close> on strings: \<open>sub\<close> occurs as a contiguous piece of \<open>s\<close>.\<close>

fun contains :: "string \<Rightarrow> string \<Rightarrow> bool" where
  "contains [] sub = (sub = [])"
| "contains (c # cs) sub = (startswith (c # cs) sub \<or> contains cs sub)"

text \<open>\<open>any(term in s for term in terms)\<close> and \<open>sum(1 for term in terms if term in s)\<close>.\<close>

definition any_in :: "string list \<Rightarrow> string \<Rightarrow> bool" where
  "any_in terms s = list_ex (contains s) terms"

definition count_in :: "string list \<Rightarrow> string \<Rightarrow> nat" where
  "count_in terms s = length (filter (contains s) terms)"

text \<open>\<open>s.split(sep)\<close> for a one-character separator: the pieces between the separators,
  empty pieces kept; the empty text gives one empty piece.\<close>

fun split_on :: "char \<Rightarrow> string \<Rightarrow> string list" where
  "split_on sep [] = [[]]"
| "split_on sep (c # cs) =
     (if c = sep then [] # split_on sep cs
      else (case split_on sep cs of [] \<Rightarrow> [[c]] | w # ws \<Rightarrow> (c # w) # ws))"

text \<open>\<open>s.split()\<close>: the maximal runs of non-whitespace characters.\<close>

fun split_ws_acc :: "string \<Rightarrow> string \<Rightarrow> string list" where
  "split_ws_acc acc [] = (if acc = [] then [] else [rev acc])"
| "split_ws_acc acc (c # cs) =
     (if is_space c then (if acc = [] then split_ws_acc [] cs else rev acc # split_ws_acc [] cs)
      else split_ws_acc (c # acc) cs)"

definition split_ws :: "string \<Rightarrow> string list" where
  "split_ws s = split_ws_acc [] s"

text \<open>\<open>sep.join(xs)\<close>.\<close>

fun join :: "string \<Rightarrow> string list \<Rightarrow> string" where
  "join sep [] = []"
| "join sep [x] = x"
| "join sep (x # y # ys) = x @ sep @ join sep (y # ys)"

text \<open>\<open>x or []\<close> and \<open>x or ''\<close> for an optional list or text.\<close>

definition or_empty :: "'a list option \<Rightarrow> 'a list" where
  "or_empty x = (case x of None \<Rightarrow> [] | Some v \<Rightarrow> v)"

text \<open>Python exceptions as values: the class name and \<open>str(e)\<close>.\<close>

datatype exn = Exn (exn_class: string) (exn_str: string)

subsection \<open>Regular expressions\<close>

text \<open>
  The patterns of the evaluators, matched as Python's \<open>re\<close> module matches them: a
  backtracking matcher, leftmost match first, greedy repetition. A position is the
  character before it (\<open>None\<close> at the start of the text), the text still to read, and
  the groups captured so far. \<open>matches r p\<close> lists the positions at which a match of
  \<open>r\<close> started at \<open>p\<close> can end, in the order in which backtracking tries them.
\<close>

datatype re =
    Cls "char \<Rightarrow> bool"
  | Bos
  | Bol
  | Eol
  | Seq re re
  | Alt re re
  | Star re
  | Grp re

type_synonym pos = "char option \<times> string \<times> string list"

primrec star_iter :: "nat \<Rightarrow> (pos \<Rightarrow> pos list) \<Rightarrow> pos \<Rightarrow> pos list" where
  "star_iter 0 f p = [p]"
| "star_iter (Suc n) f p =
     concat (map (star_iter n f)
       (filter (\<lambda>q. length (fst (snd q)) < length (fst (snd p))) (f p))) @ [p]"

fun matches :: "re \<Rightarrow> pos \<Rightarrow> pos list" where
  "matches (Cls P) (prev, s, caps) =
     (case s of [] \<Rightarrow> [] | c # cs \<Rightarrow> if P c then [(Some c, cs, caps)] else [])"
| "matches Bos (prev, s, caps) = (if prev = None then [(prev, s, caps)] else [])"
| "matches Bol (prev, s, caps) =
     (if prev = None \<or> prev = Some nl then [(prev, s, caps)] else [])"
| "matches Eol (prev, s, caps) =
     (case s of [] \<Rightarrow> [(prev, s, caps)] | c # cs \<Rightarrow> if c = nl then [(prev, s, caps)] else [])"
| "matches (Seq a b) p = concat (map (\<lambda>q. matches b q) (matches a p))"
| "matches (Alt a b) p = matches a p @ matches b p"
| "matches (Star a) (prev, s, caps) = star_iter (length s) (\<lambda>q. matches a q) (prev, s, caps)"
| "matches (Grp a) (prev, s, caps) =
     map (\<lambda>(prev', s', caps'). (prev', s', caps' @ [take (length s - length s') s]))
       (matches a (prev, s, caps))"

definition plus_re :: "re \<Rightarrow> re" where
  "plus_re r = Seq r (Star r)"

text \<open>
  Scanning a text for the non-overlapping matches of a pattern, left to right
  (\<open>re.finditer\<close>, \<open>re.findall\<close>, \<open>re.sub\<close>): at each position the first match that
  backtracking finds is taken and the scan goes on where it ends; where nothing
  matches, the character is passed over. An empty match is reported and the scan moves
  one character on. The result keeps the characters passed over (\<open>Inl\<close>) and the
  matches (\<open>Inr\<close>: the matched text and its groups).
\<close>

function re_scan :: "re \<Rightarrow> char option \<Rightarrow> string \<Rightarrow> (char + string \<times> string list) list" where
  "re_scan r prev s =
     (case matches r (prev, s, []) of
        [] \<Rightarrow> (case s of [] \<Rightarrow> [] | c # cs \<Rightarrow> Inl c # re_scan r (Some c) cs)
      | (prev', s', caps) # _ \<Rightarrow>
          (if length s' < length s
           then Inr (take (length s - length s') s, caps) # re_scan r prev' s'
           else (case s of [] \<Rightarrow> [Inr ([], caps)]
                 | c # cs \<Rightarrow> Inr ([], caps) # Inl c # re_scan r (Some c) cs)))"
  by pat_completeness auto
termination
  by (relation "measure (\<lambda>(r, prev, s). length s)") auto

definition finditer :: "re \<Rightarrow> string \<Rightarrow> (string \<times> string list) list" where
  "finditer r s = concat (map (\<lambda>x. case x of Inl c \<Rightarrow> [] | Inr m \<Rightarrow> [m]) (re_scan r None s))"

text \<open>\<open>re.sub(r, '', s)\<close>: every match removed.\<close>

definition re_sub_empty :: "re \<Rightarrow> string \<Rightarrow> string" where
  "re_sub_empty r s = concat (map (\<lambda>x. case x of Inl c \<Rightarrow> [c] | Inr m \<Rightarrow> []) (re_scan r None s))"


section \<open>Feature evaluator (evaluators/feat_evaluator.py)\<close>

record StructuralValidation =
  is_valid :: bool
  expected_sections :: "string list"
  found_sections :: "string list"
  missing_sections :: "string list"
  extra_sections :: "string list"
  structure_score :: real

record FeatScore =
  overall_score :: real
  structural_integrity :: real
  implementation_detail :: real
  language_specificity :: real
  technical_accuracy :: real
  clarity :: real
  feedback :: string
  strengths :: "string list"
  weaknesses :: "string list"
  structural_validation :: StructuralValidation

text \<open>The weights of \<open>FeatEvaluator.__init__\<close>.\<close>

definition w_structural_integrity :: real where "w_structural_integrity = 0.30"
definition w_implementation_detail :: real where "w_implementation_detail = 0.25"
definition w_language_specificity :: real where "w_language_specificity = 0.20"
definition w_technical_accuracy :: real where "w_technical_accuracy = 0.15"
definition w_clarity :: real where "w_clarity = 0.10"

text \<open>The pattern \<^verbatim>\<open>^(#+)\s+(.+)$\<close> under \<open>re.MULTILINE\<close>.\<close>

definition header_pattern :: re where
  "header_pattern =
     Seq Bol (Seq (Grp (plus_re (Cls (\<lambda>c. c = CHR ''#''))))
       (Seq (plus_re (Cls is_space)) (Seq (Grp (plus_re (Cls (\<lambda>c. c \<noteq> nl)))) Eol)))"

text \<open>The pattern \<^verbatim>\<open>^[\d.]+\s*\<close> (no flag: \<^verbatim>\<open>^\<close> is the start of the text).\<close>

definition number_prefix_pattern :: re where
  "number_prefix_pattern =
     Seq Bos (Seq (plus_re (Cls (\<lambda>c. is_digit c \<or> c = CHR ''.''))) (Star (Cls is_space)))"

definition group2 :: "string list \<Rightarrow> string" where
  "group2 caps = (case caps of [g1, g2] \<Rightarrow> g2 | _ \<Rightarrow> [])"

definition normalize_title :: "string \<Rightarrow> string" where
  "normalize_title title = strip (lower (re_sub_empty number_prefix_pattern title))"

definition extract_section_structure :: "string \<Rightarrow> string list" where
  "extract_section_structure content =
     map (\<lambda>(m, caps). normalize_title (strip (group2 caps))) (finditer header_pattern content)"

text \<open>
  \<open>list(set(xs) - set(ys))\<close>: the distinct elements of \<open>xs\<close> that are not in \<open>ys\<close>, in
  the order in which Python iterates over the set. That order is fixed within one
  interpreter process and not specified otherwise; it is the parameter \<open>rank\<close> (the
  elements are listed by ascending rank, elements of equal rank in the order of their
  first occurrence).
\<close>

definition set_difference_list :: "(string \<Rightarrow> nat) \<Rightarrow> string list \<Rightarrow> string list \<Rightarrow> string list" where
  "set_difference_list rank xs ys = sort_key rank (remdups (filter (\<lambda>x. x \<notin> set ys) xs))"

definition validate_structure ::
  "(string \<Rightarrow> nat) \<Rightarrow> string \<Rightarrow> string list \<Rightarrow> StructuralValidation" where
  "validate_structure rank feat_content expected =
     (let found = extract_section_structure feat_content;
          missing = set_difference_list rank expected found;
          extra = set_difference_list rank found expected;
          (score, valid) =
            (if expected = [] then (1.0, True)
             else if missing \<noteq> [] \<or> extra \<noteq> [] then
               (let missing_penalty = real (length missing) * 0.3;
                    extra_penalty = real (length extra) * 0.1;
                    total_penalty = missing_penalty + extra_penalty
                in (max 0.0 (1.0 - total_penalty / real (length expected)), length missing = 0))
             else (1.0, True))
      in \<lparr> is_valid = valid, expected_sections = expected, found_sections = found,
           missing_sections = missing, extra_sections = extra, structure_score = score \<rparr>)"

text \<open>The three backquotes that open a code block in Markdown.\<close>

definition code_fence :: string where
  "code_fence = [CHR 0x60, CHR 0x60, CHR 0x60]"

definition detail_indicators :: "string list" where
  "detail_indicators =
     [''function'', ''method'', ''class'', ''struct'', ''interface'',
      ''algorithm'', ''data structure'', ''parameter'', ''return'',
      ''input'', ''output'', ''validation'', ''error handling'']"

definition evaluate_implementation_detail :: "string \<Rightarrow> real \<times> string list \<times> string list" where
  "evaluate_implementation_detail feat_content =
     (let content_lower = lower feat_content;
          detail_count = count_in detail_indicators content_lower;
          detail_score = min 1.0 (real detail_count / real (length detail_indicators));
          score = 0.0 + detail_score * 0.4;
          (strengths, weaknesses) =
            (if detail_score \<ge> 0.7 then ([''Rich implementation details and specificity''], [])
             else if detail_score \<ge> 0.4 then ([''Good level of implementation detail''], [])
             else ([], [''Lacks specific implementation details'']));
          (score, strengths, weaknesses) =
            (if any_in [code_fence, code_fence @ ''python'', code_fence @ ''go'', code_fence @ ''rust'']
                  feat_content
             then (score + 0.2, strengths @ [''Includes code examples''], weaknesses)
             else if any_in [''pseudocode'', ''example'', ''sample''] content_lower
             then (score + 0.1, strengths @ [''Provides implementation examples''], weaknesses)
             else (score, strengths, weaknesses @ [''No code examples or pseudocode'']));
          (score, strengths, weaknesses) =
            (if any_in [''flow'', ''process'', ''step'', ''sequence'', ''workflow''] content_lower
             then (score + 0.2, strengths @ [''Describes implementation flow and processes''], weaknesses)
             else (score, strengths, weaknesses @ [''Limited description of implementation flow'']));
          (score, strengths, weaknesses) =
            (if any_in [''edge case'', ''error'', ''exception'', ''failure''] content_lower
             then (score + 0.1, strengths @ [''Addresses edge cases and error handling''], weaknesses)
             else (score, strengths, weaknesses @ [''Missing edge case and error handling discussion'']));
          (score, strengths) =
            (if any_in [''performance'', ''optimization'', ''efficiency''] content_lower
             then (score + 0.1, strengths @ [''Includes performance considerations''])
             else (score, strengths))
      in (max 0.0 (min 1.0 score), strengths, weaknesses))"

text \<open>The table \<open>language_patterns\<close> of \<open>evaluate_language_specificity\<close>: for a language,
  its positive patterns, its negative patterns and its practices.\<close>

definition feat_language_patterns :: "string \<Rightarrow> (string list \<times> string list \<times> string list) option" where
  "feat_language_patterns lang =
     (if lang = ''go'' then
        Some ([''interface'', ''struct'', ''goroutine'', ''channel'', ''defer'', ''panic'', ''recover''],
              [''class'', ''inheritance'', ''exception''],
              [''composition'', ''error handling'', ''concurrency''])
      else if lang = ''python'' then
        Some ([''class'', ''decorator'', ''generator'', ''context manager'', ''list comprehension''],
              [''goto'', ''multiple inheritance abuse''],
              [''pythonic'', ''pep 8'', ''duck typing'', ''zen of python''])
      else if lang = ''rust'' then
        Some ([''ownership'', ''borrowing'', ''trait'', ''enum'', ''match'', ''result'', ''option''],
              [''garbage collection'', ''null pointer''],
              [''memory safety'', ''zero-cost abstraction'', ''fearless concurrency''])
      else None)"

text \<open>\<open>not language\<close> for an optional text: \<open>None\<close> and the empty text are both false.\<close>

definition no_language :: "string option \<Rightarrow> bool" where
  "no_language language = (case language of None \<Rightarrow> True | Some l \<Rightarrow> l = [])"

definition evaluate_language_specificity ::
  "string \<Rightarrow> string option \<Rightarrow> real \<times> string list \<times> string list" where
  "evaluate_language_specificity feat_content language =
     (let score = 0.5; content_lower = lower feat_content in
      if no_language language then
        (if any_in [''language-specific'', ''idiom'', ''convention''] content_lower
         then (score + 0.2, [''Mentions language-specific considerations''], [])
         else (score, [], []))
      else
        (let lang = or_empty language in
         case feat_language_patterns (lower lang) of
           Some (positive, negative, practices) \<Rightarrow>
             (let positive_matches = count_in positive content_lower;
                  (score, strengths, weaknesses) =
                    (if real positive_matches \<ge> real (length positive) * 0.5
                     then (score + 0.3, [''Strong use of '' @ lang @ ''-specific patterns''], [])
                     else if positive_matches > 0
                     then (score + 0.1, [''Some '' @ lang @ ''-specific patterns used''], [])
                     else (score - 0.2, [], [''Limited use of '' @ lang @ ''-specific patterns'']));
                  negative_matches = count_in negative content_lower;
                  (score, weaknesses) =
                    (if negative_matches > 0
                     then (score - 0.2, weaknesses @ [''Contains '' @ lang @ '' anti-patterns''])
                     else (score, weaknesses));
                  practice_matches = count_in practices content_lower;
                  (score, strengths) =
                    (if practice_matches > 0
                     then (score + 0.2, strengths @ [''Incorporates '' @ lang @ '' best practices''])
                     else (score, strengths))
              in (max 0.0 (min 1.0 score), strengths, weaknesses))
         | None \<Rightarrow>
             (if contains content_lower lang
              then (max 0.0 (min 1.0 (score + 0.1)), [''Mentions '' @ lang @ '' in context''], [])
              else (max 0.0 (min 1.0 score), [], []))))"

definition evaluate_technical_accuracy :: "string \<Rightarrow> real \<times> string list \<times> string list" where
  "evaluate_technical_accuracy feat_content =
     (let score = 0.5; content_lower = lower feat_content;
          tech_mentions = count_in
            [''algorithm'', ''data structure'', ''complexity'', ''performance'',
             ''memory'', ''cpu'', ''network'', ''database'', ''api'', ''protocol''] content_lower;
          (score, strengths, weaknesses) =
            (if tech_mentions \<ge> 5 then (score + 0.3, [''Strong technical depth''], [])
             else if tech_mentions \<ge> 3 then (score + 0.1, [''Good technical coverage''], [])
             else (score - 0.1, [], [''Limited technical depth'']));
          (score, strengths) =
            (if any_in [''mvc'', ''mvp'', ''singleton'', ''factory'', ''observer'', ''strategy''] content_lower
             then (score + 0.2, strengths @ [''Uses established architecture patterns''])
             else (score, strengths));
          (score, strengths, weaknesses) =
            (if any_in [''security'', ''authentication'', ''authorization'', ''encryption'', ''validation'']
                  content_lower
             then (score + 0.1, strengths @ [''Addresses security considerations''], weaknesses)
             else (score, strengths, weaknesses @ [''Limited security discussion'']));
          (score, strengths) =
            (if any_in [''scalable'', ''maintainable'', ''extensible''] content_lower
             then (score + 0.1, strengths @ [''Considers scalability and maintainability''])
             else (score, strengths));
          (score, strengths, weaknesses) =
            (if any_in [''test'', ''testing'', ''unit test'', ''integration''] content_lower
             then (score + 0.2, strengths @ [''Includes testing approach''], weaknesses)
             else (score - 0.1, strengths, weaknesses @ [''No testing methodology specified'']))
      in (max 0.0 (min 1.0 score), strengths, weaknesses))"

text \<open>The patterns \<^verbatim>\<open>^#+\s+\<close> and \<^verbatim>\<open>^[\s]*[-*+]\s+|^\s*\d+\.\s+\<close>, both under
  \<open>re.MULTILINE\<close>.\<close>

definition header_mark_pattern :: re where
  "header_mark_pattern = Seq Bol (Seq (plus_re (Cls (\<lambda>c. c = CHR ''#''))) (plus_re (Cls is_space)))"

definition list_pattern :: re where
  "list_pattern =
     Alt (Seq Bol (Seq (Star (Cls is_space))
            (Seq (Cls (\<lambda>c. c = CHR ''-'' \<or> c = CHR ''*'' \<or> c = CHR ''+'')) (plus_re (Cls is_space)))))
         (Seq Bol (Seq (Star (Cls is_space))
            (Seq (plus_re (Cls is_digit)) (Seq (Cls (\<lambda>c. c = CHR ''.'')) (plus_re (Cls is_space))))))"

text \<open>\<open>len(re.findall(r, s, re.MULTILINE))\<close>.\<close>

definition findall_count :: "re \<Rightarrow> string \<Rightarrow> nat" where
  "findall_count r s = length (finditer r s)"

definition evaluate_clarity :: "string \<Rightarrow> real \<times> string list \<times> string list" where
  "evaluate_clarity feat_content =
     (let score = 0.5;
          header_count = findall_count header_mark_pattern feat_content;
          (score, strengths, weaknesses) =
            (if header_count \<ge> 3 then (score + 0.2, [''Well-structured document''], [])
             else if header_count \<ge> 1 then (score + 0.1, [''Basic document structure''], [])
             else (score - 0.2, [], [''Poor document structure'']));
          list_count = findall_count list_pattern feat_content;
          (score, strengths) =
            (if list_count \<ge> 5 then (score + 0.1, strengths @ [''Good use of lists for organization''])
             else (score, strengths));
          (score, strengths) =
            (if any_in [''specifically'', ''namely'', ''for example'', ''in other words'', ''that is'']
                  (lower feat_content)
             then (score + 0.1, strengths @ [''Uses clear explanatory language''])
             else (score, strengths));
          sentences = map strip (filter (\<lambda>s. strip s \<noteq> []) (split_on (CHR ''.'') feat_content));
          (score, strengths, weaknesses) =
            (if sentences \<noteq> [] then
               (let avg_length = real (sum_list (map (\<lambda>s. length (split_ws s)) sentences))
                                  / real (length sentences)
                in if 10 \<le> avg_length \<and> avg_length \<le> 25
                   then (score + 0.1, strengths @ [''Good sentence length for readability''], weaknesses)
                   else if avg_length > 30
                   then (score - 0.1, strengths, weaknesses @ [''Sentences may be too long''])
                   else (score, strengths, weaknesses))
             else (score, strengths, weaknesses));
          (score, weaknesses) =
            (if any_in [''TODO'', ''TBD'', ''FIXME''] (upper feat_content)
             then (score - 0.2, weaknesses @ [''Contains incomplete sections''])
             else (score, weaknesses))
      in (max 0.0 (min 1.0 score), strengths, weaknesses))"

text \<open>The \<open>metadata\<close> dictionaries that travel with results and candidates.\<close>

datatype meta_value = MInt int | MStr string | MFloat real | MList "string list" | MNone

type_synonym metadata_dict = "(string \<times> meta_value) list"

text \<open>A candidate dictionary as the workflows build it. \<open>c_output\<close> and \<open>c_content\<close> are the
  values under the keys \<open>'output'\<close> and \<open>'content'\<close>, \<open>None\<close> when the key is absent.\<close>

record candidate =
  c_agent_name :: string
  c_output :: "string option"
  c_content :: "string option"
  c_execution_time :: real
  c_metadata :: "metadata_dict option"

definition feat_feedback :: "real \<Rightarrow> string" where
  "feat_feedback overall =
     (if overall \<ge> 0.8 then ''Excellent feature specification with comprehensive implementation guidance''
      else if overall \<ge> 0.6 then ''Good feature specification ready for implementation''
      else if overall \<ge> 0.4 then ''Adequate specification but needs more detail''
      else ''Specification requires significant improvements'')"

definition evaluate_feature ::
  "(string \<Rightarrow> nat) \<Rightarrow> string \<Rightarrow> string list option \<Rightarrow> string option \<Rightarrow> candidate option \<Rightarrow> FeatScore" where
  "evaluate_feature rank feat_content expected_structure language metadata =
     (let sv = validate_structure rank feat_content (or_empty expected_structure);
          (impl_score, impl_strengths, impl_weaknesses) = evaluate_implementation_detail feat_content;
          (lang_score, lang_strengths, lang_weaknesses) = evaluate_language_specificity feat_content language;
          (tech_score, tech_strengths, tech_weaknesses) = evaluate_technical_accuracy feat_content;
          (clarity_score, clarity_strengths, clarity_weaknesses) = evaluate_clarity feat_content;
          overall =
            structure_score sv * w_structural_integrity +
            impl_score * w_implementation_detail +
            lang_score * w_language_specificity +
            tech_score * w_technical_accuracy +
            clarity_score * w_clarity;
          all_strengths = impl_strengths @ lang_strengths @ tech_strengths @ clarity_strengths;
          all_weaknesses = impl_weaknesses @ lang_weaknesses @ tech_weaknesses @ clarity_weaknesses;
          (all_strengths, all_weaknesses) =
            (if is_valid sv then (''Preserves required section structure'' # all_strengths, all_weaknesses)
             else (all_strengths,
                   (''Missing required sections: '' @ join '', '' (missing_sections sv)) # all_weaknesses))
      in \<lparr> overall_score = overall,
           structural_integrity = structure_score sv,
           implementation_detail = impl_score,
           language_specificity = lang_score,
           technical_accuracy = tech_score,
           clarity = clarity_score,
           feedback = feat_feedback overall,
           strengths = all_strengths,
           weaknesses = all_weaknesses,
           structural_validation = sv \<rparr>)"

text \<open>\<open>candidate.get('output', candidate.get('content', ''))\<close>.\<close>

definition candidate_text :: "candidate \<Rightarrow> string" where
  "candidate_text cand =
     (case c_output cand of Some s \<Rightarrow> s
      | None \<Rightarrow> (case c_content cand of Some s \<Rightarrow> s | None \<Rightarrow> []))"

text \<open>The key of the sort in \<open>rank_features\<close>.\<close>

definition sort_key_feat :: "nat \<times> FeatScore \<Rightarrow> real" where
  "sort_key_feat item =
     (let score = snd item;
          structure_penalty = (if is_valid (structural_validation score) then 0 else - 1.0)
      in overall_score score + structure_penalty)"

text \<open>\<open>xs.sort(key=k, reverse=True)\<close>: descending by key; Python's sort is stable, also
  when reversed, so elements of equal key keep their order.\<close>

definition sort_desc :: "('a \<Rightarrow> real) \<Rightarrow> 'a list \<Rightarrow> 'a list" where
  "sort_desc k xs = sort_key (\<lambda>x. - k x) xs"

text \<open>
  \<open>rank_features\<close>: the candidates with a non-empty text are scored, then sorted. The log
  line that follows the sort reads \<open>scored_features[0]\<close>: with no scored candidate it
  raises \<open>IndexError\<close>.
\<close>

definition rank_features ::
  "(string \<Rightarrow> nat) \<Rightarrow> candidate list \<Rightarrow> string list option \<Rightarrow> string option
     \<Rightarrow> exn + (nat \<times> FeatScore) list" where
  "rank_features rank feature_candidates expected_structure language =
     (let scored_features =
            concat (map (\<lambda>(i, cand).
                      let content = candidate_text cand in
                      if content \<noteq> [] then
                        [(i, evaluate_feature rank content expected_structure language (Some cand))]
                      else [])
                    (enumerate 0 feature_candidates));
          scored_features = sort_desc sort_key_feat scored_features
      in case scored_features of
           [] \<Rightarrow> Inl (Exn ''IndexError'' ''list index out of range'')
         | best # others \<Rightarrow> Inr scored_features)"

section \<open>Design evaluator (evaluators/design_evaluator.py)\<close>

record EvaluationCriteria =
  crit_language_idioms :: real
  crit_architecture :: real
  crit_implementability :: real
  crit_completeness :: real
  crit_innovation :: real
  crit_documentation :: real

text \<open>The default weights of the dataclass \<open>EvaluationCriteria\<close>.\<close>

definition default_criteria :: EvaluationCriteria where
  "default_criteria =
     \<lparr> crit_language_idioms = 0.25, crit_architecture = 0.25, crit_implementability = 0.20,
       crit_completeness = 0.15, crit_innovation = 0.10, crit_documentation = 0.05 \<rparr>"

record DesignScore =
  d_overall_score :: real
  d_language_idioms :: real
  d_architecture :: real
  d_implementability :: real
  d_completeness :: real
  d_innovation :: real
  d_documentation :: real
  d_feedback :: string
  d_strengths :: "string list"
  d_weaknesses :: "string list"

text \<open>The table \<open>self.language_patterns\<close>: patterns, anti-patterns and best practices.\<close>

definition design_language_patterns :: "string \<Rightarrow> (string list \<times> string list \<times> string list) option" where
  "design_language_patterns lang =
     (if lang = ''go'' then
        Some ([''interface'', ''struct'', ''goroutine'', ''channel'', ''package''],
              [''inheritance'', ''class'', ''exception''],
              [''composition'', ''small interfaces'', ''error handling'', ''concurrency''])
      else if lang = ''python'' then
        Some ([''class'', ''decorator'', ''context manager'', ''generator'', ''async/await''],
              [''global variables'', ''deep inheritance''],
              [''PEP 8'', ''type hints'', ''virtual environments'', ''docstrings''])
      else if lang = ''rust'' then
        Some ([''ownership'', ''borrowing'', ''trait'', ''enum'', ''match''],
              [''unsafe blocks without justification'', ''clone() overuse''],
              [''zero-cost abstractions'', ''memory safety'', ''error handling''])
      else if lang = ''javascript'' then
        Some ([''promise'', ''async/await'', ''closure'', ''prototype'', ''module''],
              [''global pollution'', ''callback hell'', ''var usage''],
              [''ES6+'', ''immutability'', ''functional programming'', ''testing''])
      else None)"

definition clamp01 :: "real \<Rightarrow> real" where
  "clamp01 score = max 0.0 (min 1.0 score)"

definition evaluate_language_idioms ::
  "string \<Rightarrow> string option \<Rightarrow> real \<times> string list \<times> string list" where
  "evaluate_language_idioms design_content language =
     (let score = 0.5; lang = or_empty language in
      case (if no_language language then None else design_language_patterns (lower lang)) of
        None \<Rightarrow>
          (if any_in [''best practice'', ''convention'', ''standard'', ''idiomatic''] (lower design_content)
           then (clamp01 (score + 0.2), [''Mentions best practices and conventions''], [])
           else (clamp01 (score - 0.1), [], [''No mention of language-specific best practices'']))
      | Some (patterns, anti_patterns, best_practices) \<Rightarrow>
          (let content_lower = lower design_content;
               pattern_matches = count_in patterns content_lower;
               (score, strengths, weaknesses) =
                 (if real pattern_matches \<ge> real (length patterns) * 0.7
                  then (score + 0.3, [''Strong use of '' @ lang @ '' idioms and patterns''], [])
                  else if pattern_matches > 0
                  then (score + 0.1, [''Some use of '' @ lang @ '' patterns''], [])
                  else (score - 0.2, [], [''Limited use of '' @ lang @ ''-specific patterns'']));
               anti_pattern_matches = count_in anti_patterns content_lower;
               (score, strengths, weaknesses) =
                 (if anti_pattern_matches > 0
                  then (score - 0.2, strengths, weaknesses @ [''Contains '' @ lang @ '' anti-patterns''])
                  else (score + 0.1, strengths @ [''Avoids common '' @ lang @ '' anti-patterns''], weaknesses));
               practice_matches = count_in best_practices content_lower;
               (score, strengths, weaknesses) =
                 (if real practice_matches \<ge> real (length best_practices) * 0.5
                  then (score + 0.2, strengths @ [''Incorporates '' @ lang @ '' best practices''], weaknesses)
                  else if practice_matches > 0
                  then (score + 0.1, strengths @ [''Some '' @ lang @ '' best practices mentioned''], weaknesses)
                  else (score - 0.1, strengths,
                        weaknesses @ [''Limited discussion of '' @ lang @ '' best practices'']))
           in (clamp01 score, strengths, weaknesses)))"

definition evaluate_architecture :: "string \<Rightarrow> real \<times> string list \<times> string list" where
  "evaluate_architecture design_content =
     (let score = 0.5; content_lower = lower design_content;
          component_mentions =
            count_in [''component'', ''module'', ''service'', ''layer'', ''interface''] content_lower;
          (score, strengths, weaknesses) =
            (if component_mentions \<ge> 3 then (score + 0.2, [''Well-defined architectural components''], [])
             else if component_mentions > 0 then (score + 0.1, [''Some architectural structure''], [])
             else (score - 0.2, [], [''Unclear architectural structure'']));
          (score, strengths, weaknesses) =
            (if any_in [''scalability'', ''scale'', ''performance'', ''load'', ''concurrent''] content_lower
             then (score + 0.2, strengths @ [''Addresses scalability concerns''], weaknesses)
             else (score - 0.1, strengths, weaknesses @ [''Limited scalability discussion'']));
          (score, strengths, weaknesses) =
            (if any_in [''data flow'', ''communication'', ''api'', ''interface''] content_lower
             then (score + 0.15, strengths @ [''Defines data flow and communication''], weaknesses)
             else (score - 0.15, strengths, weaknesses @ [''Unclear data flow and communication'']));
          (score, strengths, weaknesses) =
            (if any_in [''error'', ''exception'', ''failure'', ''resilience''] content_lower
             then (score + 0.15, strengths @ [''Considers error handling and resilience''], weaknesses)
             else (score - 0.1, strengths, weaknesses @ [''Limited error handling discussion'']));
          (score, strengths) =
            (if any_in [''separation'', ''concern'', ''responsibility'', ''single''] content_lower
             then (score + 0.1, strengths @ [''Good separation of concerns''])
             else (score, strengths))
      in (clamp01 score, strengths, weaknesses))"

definition evaluate_implementability :: "string \<Rightarrow> real \<times> string list \<times> string list" where
  "evaluate_implementability design_content =
     (let score = 0.5; content_lower = lower design_content;
          impl_mentions =
            count_in [''implement'', ''code'', ''function'', ''method'', ''algorithm''] content_lower;
          (score, strengths, weaknesses) =
            (if impl_mentions \<ge> 3 then (score + 0.3, [''Provides concrete implementation guidance''], [])
             else if impl_mentions > 0 then (score + 0.1, [''Some implementation details''], [])
             else (score - 0.2, [], [''Lacks implementation details'']));
          (score, strengths, weaknesses) =
            (if any_in [''framework'', ''library'', ''database'', ''technology'', ''stack''] content_lower
             then (score + 0.2, strengths @ [''Specifies technology choices''], weaknesses)
             else (score - 0.1, strengths, weaknesses @ [''Unclear technology stack'']));
          (score, strengths) =
            (if any_in [''simple'', ''complex'', ''easy'', ''difficult'', ''effort''] content_lower
             then (score + 0.1, strengths @ [''Considers implementation complexity''])
             else (score, strengths));
          (score, strengths, weaknesses) =
            (if any_in [''step'', ''phase'', ''stage'', ''milestone''] content_lower
             then (score + 0.2, strengths @ [''Provides implementation roadmap''], weaknesses)
             else (score - 0.1, strengths, weaknesses @ [''No clear implementation roadmap'']));
          (score, strengths) =
            (if any_in [''dependency'', ''requirement'', ''prerequisite''] content_lower
             then (score + 0.1, strengths @ [''Identifies dependencies and requirements''])
             else (score, strengths))
      in (clamp01 score, strengths, weaknesses))"

text \<open>The keyword lists of \<open>required_sections\<close>, one per section.\<close>

definition required_sections :: "string list list" where
  "required_sections =
     [[''overview'', ''introduction'', ''summary''],
      [''architecture'', ''design'', ''structure''],
      [''component'', ''module'', ''service''],
      [''data'', ''model'', ''schema'', ''database''],
      [''interface'', ''api'', ''contract''],
      [''deployment'', ''infrastructure'', ''environment'']]"

definition evaluate_completeness :: "string \<Rightarrow> real \<times> string list \<times> string list" where
  "evaluate_completeness design_content =
     (let content_lower = lower design_content;
          sections_found = length (filter (\<lambda>keywords. any_in keywords content_lower) required_sections);
          completion_ratio = real sections_found / real (length required_sections);
          score = completion_ratio;
          (strengths, weaknesses) =
            (if completion_ratio \<ge> 0.8 then ([''Comprehensive coverage of all major areas''], [])
             else if completion_ratio \<ge> 0.6 then ([''Good coverage of most areas''], [])
             else if completion_ratio \<ge> 0.4
             then ([''Basic coverage of key areas''], [''Missing some important architectural aspects''])
             else ([], [''Incomplete architectural coverage'']));
          word_count = length (split_ws design_content);
          (score, strengths, weaknesses) =
            (if word_count \<ge> 1000
             then (score + 0.1, strengths @ [''Detailed and thorough documentation''], weaknesses)
             else if word_count \<ge> 500
             then (score, strengths @ [''Adequate level of detail''], weaknesses)
             else (score - 0.1, strengths, weaknesses @ [''Lacks sufficient detail'']))
      in (clamp01 score, strengths, weaknesses))"

definition evaluate_innovation :: "string \<Rightarrow> real \<times> string list \<times> string list" where
  "evaluate_innovation design_content =
     (let score = 0.5; content_lower = lower design_content;
          (score, strengths) =
            (if any_in [''innovative'', ''novel'', ''creative'', ''elegant'', ''unique''] content_lower
             then (score + 0.2, [''Demonstrates innovative thinking''])
             else (score, []));
          (score, strengths) =
            (if any_in [''modern'', ''contemporary'', ''latest'', ''current'', ''state-of-the-art''] content_lower
             then (score + 0.1, strengths @ [''Uses modern approaches''])
             else (score, strengths));
          (score, strengths) =
            (if any_in [''optimize'', ''efficient'', ''performance'', ''fast'', ''lightweight''] content_lower
             then (score + 0.2, strengths @ [''Focuses on optimization and efficiency''])
             else (score, strengths));
          (score, strengths) =
            (if any_in [''extensible'', ''flexible'', ''modular'', ''configurable'', ''pluggable''] content_lower
             then (score + 0.2, strengths @ [''Designed for extensibility''])
             else (score, strengths));
          (score, weaknesses) =
            (if any_in [''complicated'', ''convoluted'', ''over-engineered'', ''complex''] content_lower
             then (score - 0.1, [''May be overly complex''])
             else (score, []))
      in (clamp01 score, strengths, weaknesses))"

definition evaluate_documentation :: "string \<Rightarrow> real \<times> string list \<times> string list" where
  "evaluate_documentation design_content =
     (let score = 0.5;
          header_count = findall_count header_mark_pattern design_content;
          (score, strengths, weaknesses) =
            (if header_count \<ge> 5 then (score + 0.2, [''Well-structured with clear sections''], [])
             else if header_count \<ge> 3 then (score + 0.1, [''Good document structure''], [])
             else (score - 0.2, [], [''Poor document structure'']));
          (score, strengths) =
            (if any_in [''diagram'', ''figure'', ''chart'', ''visual''] (lower design_content)
             then (score + 0.2, strengths @ [''Includes visual documentation''])
             else (score, strengths));
          (score, strengths) =
            (if any_in [''example'', ''use case'', ''scenario''] (lower design_content)
             then (score + 0.2, strengths @ [''Provides examples and use cases''])
             else (score, strengths));
          sentences = split_on (CHR ''.'') design_content;
          avg_sentence_length =
            (if sentences \<noteq> []
             then real (sum_list (map (\<lambda>s. length (split_ws s)) sentences)) / real (length sentences)
             else 0);
          (score, strengths, weaknesses) =
            (if 10 \<le> avg_sentence_length \<and> avg_sentence_length \<le> 25
             then (score + 0.1, strengths @ [''Clear and readable writing style''], weaknesses)
             else if avg_sentence_length > 30
             then (score - 0.1, strengths, weaknesses @ [''Sentences may be too long and complex''])
             else (score, strengths, weaknesses));
          (score, weaknesses) =
            (if contains design_content ''TODO'' \<or> contains design_content ''TBD''
             then (score - 0.2, weaknesses @ [''Contains incomplete sections''])
             else (score, weaknesses))
      in (clamp01 score, strengths, weaknesses))"

definition design_feedback :: "real \<Rightarrow> string" where
  "design_feedback overall =
     (if overall \<ge> 0.8 then ''Excellent design with strong architectural foundation''
      else if overall \<ge> 0.6 then ''Good design with solid implementation potential''
      else if overall \<ge> 0.4 then ''Adequate design but needs improvements''
      else ''Design requires significant improvements'')"

definition evaluate_design ::
  "EvaluationCriteria \<Rightarrow> string \<Rightarrow> string option \<Rightarrow> candidate option \<Rightarrow> DesignScore" where
  "evaluate_design criteria design_content language metadata =
     (let (lang_score, lang_strengths, lang_weaknesses) = evaluate_language_idioms design_content language;
          (arch_score, arch_strengths, arch_weaknesses) = evaluate_architecture design_content;
          (impl_score, impl_strengths, impl_weaknesses) = evaluate_implementability design_content;
          (comp_score, comp_strengths, comp_weaknesses) = evaluate_completeness design_content;
          (innov_score, innov_strengths, innov_weaknesses) = evaluate_innovation design_content;
          (doc_score, doc_strengths, doc_weaknesses) = evaluate_documentation design_content;
          overall =
            lang_score * crit_language_idioms criteria +
            arch_score * crit_architecture criteria +
            impl_score * crit_implementability criteria +
            comp_score * crit_completeness criteria +
            innov_score * crit_innovation criteria +
            doc_score * crit_documentation criteria
      in \<lparr> d_overall_score = overall,
           d_language_idioms = lang_score,
           d_architecture = arch_score,
           d_implementability = impl_score,
           d_completeness = comp_score,
           d_innovation = innov_score,
           d_documentation = doc_score,
           d_feedback = design_feedback overall,
           d_strengths = lang_strengths @ arch_strengths @ impl_strengths @
                         comp_strengths @ innov_strengths @ doc_strengths,
           d_weaknesses = lang_weaknesses @ arch_weaknesses @ impl_weaknesses @
                          comp_weaknesses @ innov_weaknesses @ doc_weaknesses \<rparr>)"

text \<open>\<open>rank_designs\<close>: as \<open>rank_features\<close>, sorted by the overall score alone; its log line
  reads \<open>scored_designs[0]\<close> too.\<close>

definition rank_designs ::
  "EvaluationCriteria \<Rightarrow> candidate list \<Rightarrow> string option \<Rightarrow> exn + (nat \<times> DesignScore) list" where
  "rank_designs criteria design_candidates language =
     (let scored_designs =
            concat (map (\<lambda>(i, cand).
                      let content = candidate_text cand in
                      if content \<noteq> [] then
                        [(i, evaluate_design criteria content language (Some cand))]
                      else [])
                    (enumerate 0 design_candidates));
          scored_designs = sort_desc (\<lambda>x. d_overall_score (snd x)) scored_designs
      in case scored_designs of
           [] \<Rightarrow> Inl (Exn ''IndexError'' ''list index out of range'')
         | best # others \<Rightarrow> Inr scored_designs)"

section \<open>Agent registry (core/agent_registry.py)\<close>

text \<open>Times (\<open>datetime.now()\<close>, \<open>time.time()\<close>) are values handed in by the caller.\<close>

record AgentHealth =
  h_agent_name :: string
  success_rate :: real
  avg_response_time :: real
  last_success :: "real option"
  last_failure :: "real option"
  total_invocations :: nat
  recent_failures :: "string list"

definition new_health :: "string \<Rightarrow> AgentHealth" where
  "new_health name =
     \<lparr> h_agent_name = name, success_rate = 0.0, avg_response_time = 0.0,
       last_success = None, last_failure = None, total_invocations = 0, recent_failures = [] \<rparr>"

text \<open>\<open>xs[-5:]\<close>.\<close>

definition last5 :: "'a list \<Rightarrow> 'a list" where
  "last5 xs = drop (length xs - 5) xs"

text \<open>The body of \<open>record_agent_invocation\<close> on the agent's health record, in the order of
  the source: the counter first, then the response time, the time stamps and the failure
  messages, and last the success rate.\<close>

definition record_on_health :: "real \<Rightarrow> AgentHealth \<Rightarrow> bool \<Rightarrow> real \<Rightarrow> string option \<Rightarrow> AgentHealth" where
  "record_on_health now health succeeded response_time error_msg =
     (let health = health\<lparr> total_invocations := total_invocations health + 1 \<rparr>;
          health =
            (if avg_response_time health = 0
             then health\<lparr> avg_response_time := response_time \<rparr>
             else health\<lparr> avg_response_time := avg_response_time health * 0.8 + response_time * 0.2 \<rparr>);
          health =
            (if succeeded then health\<lparr> last_success := Some now \<rparr>
             else (let health = health\<lparr> last_failure := Some now \<rparr> in
                   if or_empty error_msg \<noteq> []
                   then health\<lparr> recent_failures := last5 (recent_failures health @ [or_empty error_msg]) \<rparr>
                   else health));
          current_successes = real (total_invocations health) * success_rate health;
          current_successes = (if succeeded then current_successes + 1 else current_successes)
      in health\<lparr> success_rate := current_successes / real (total_invocations health) \<rparr>)"

definition record_agent_invocation ::
  "real \<Rightarrow> (string \<rightharpoonup> AgentHealth) \<Rightarrow> string \<Rightarrow> bool \<Rightarrow> real \<Rightarrow> string option
     \<Rightarrow> (string \<rightharpoonup> AgentHealth)" where
  "record_agent_invocation now health_metrics name succeeded response_time error_msg =
     (let health_metrics =
            (if health_metrics name = None then health_metrics(name \<mapsto> new_health name)
             else health_metrics)
      in case health_metrics name of
           None \<Rightarrow> health_metrics
         | Some health \<Rightarrow>
             health_metrics(name \<mapsto> record_on_health now health succeeded response_time error_msg))"

text \<open>A sequence of recorded invocations of one agent: success flag, response time, error
  message and the time of the call.\<close>

type_synonym invocation = "bool \<times> real \<times> string option \<times> real"

fun record_all :: "(string \<rightharpoonup> AgentHealth) \<Rightarrow> string \<Rightarrow> invocation list \<Rightarrow> (string \<rightharpoonup> AgentHealth)" where
  "record_all health_metrics name [] = health_metrics"
| "record_all health_metrics name ((succeeded, response_time, error_msg, now) # calls) =
     record_all (record_agent_invocation now health_metrics name succeeded response_time error_msg)
       name calls"

section \<open>Orchestration engine (core/orchestration_engine.py)\<close>

record AgentTask =
  t_agent_name :: string
  t_prompt :: string
  t_task_id :: string
  t_timeout :: int
  t_input_files :: "(string \<times> string) list option"
  t_expected_outputs :: "string list option"

record AgentResult =
  agent_name :: string
  task_id :: string
  success :: bool
  output_text :: string
  error :: "string option"
  execution_time :: real
  output_files :: "(string \<times> string) list option"
  metadata :: "metadata_dict option"

record OrchestrationResult =
  task_type :: string
  o_success :: bool
  selected_result :: "AgentResult option"
  all_results :: "AgentResult list option"
  o_execution_time :: real
  o_metadata :: "(string \<times> meta_value) list option"

text \<open>\<open>str(n)\<close> for an integer.\<close>

definition digit_char :: "nat \<Rightarrow> char" where
  "digit_char d = ''0123456789'' ! d"

fun str_nat :: "nat \<Rightarrow> string" where
  "str_nat n = (if n < 10 then [digit_char n] else str_nat (n div 10) @ [digit_char (n mod 10)])"

definition str_int :: "int \<Rightarrow> string" where
  "str_int i = (if i < 0 then CHR ''-'' # str_nat (nat (- i)) else str_nat (nat i))"

text \<open>
  The state the engine works on: its attribute \<open>temp_dir\<close>, the task ids in
  \<open>active_processes\<close>, the task ids whose process the engine has stopped
  (\<open>process.kill()\<close>, \<open>process.terminate()\<close>), and the disk: the directories that exist and the files with their
  text (\<open>None\<close> for a file that cannot be read as UTF-8 text). Paths are texts; \<open>a / b\<close> on
  paths is \<open>a\<close>, a slash, \<open>b\<close>.
\<close>

record world =
  temp_dir :: "string option"
  active_processes :: "string list"
  stopped :: "string list"
  dirs :: "string list"
  files :: "(string \<times> string option) list"

definition path_join :: "string \<Rightarrow> string \<Rightarrow> string" where
  "path_join a b = a @ ''/'' @ b"

definition write_file :: "string \<Rightarrow> string option \<Rightarrow> (string \<times> string option) list \<Rightarrow> (string \<times> string option) list" where
  "write_file path content fs = filter (\<lambda>(p, c). p \<noteq> path) fs @ [(path, content)]"

definition under :: "string \<Rightarrow> string \<Rightarrow> bool" where
  "under dir path = (path = dir \<or> startswith path (dir @ ''/''))"

text \<open>The last component of a path (\<open>file_path.name\<close>).\<close>

definition basename :: "string \<Rightarrow> string" where
  "basename path = rev (takeWhile (\<lambda>c. c \<noteq> CHR ''/'') (rev path))"

text \<open>
  What the world outside the engine does during one run of \<open>_execute_agent_task\<close>: the
  clock, whether \<open>mkdir\<close>, \<open>write_text\<close>, \<open>create_subprocess_exec\<close> or the collection of
  the output files raise, how the worker process ends, and what it writes in its working
  directory (paths relative to it). Exceptions are instances of \<open>Exception\<close>; a
  cancellation of the surrounding task is not part of the model, and \<open>process.kill()\<close>
  succeeds.
\<close>

datatype proc_outcome = Completed string string int | TimedOut

record task_env =
  env_start_time :: real
  env_end_time :: real
  env_mkdir_error :: "exn option"
  env_write_error :: "exn option"
  env_spawn_error :: "exn option"
  env_outcome :: proc_outcome
  env_written :: "(string \<times> string option) list"
  env_collect_error :: "exn option"

text \<open>\<open>_create_task_workspace\<close>. \<open>Path(None)\<close> raises \<open>TypeError\<close>; \<open>mkdir\<close> and
  \<open>write_text\<close> raise when the environment says so.\<close>

definition create_task_workspace :: "world \<Rightarrow> AgentTask \<Rightarrow> task_env \<Rightarrow> (exn + string) \<times> world" where
  "create_task_workspace w task env =
     (case temp_dir w of
        None \<Rightarrow> (Inl (Exn ''TypeError'' ''expected str, bytes or os.PathLike object, not NoneType''), w)
      | Some tmp \<Rightarrow>
          (let task_dir = path_join tmp (t_task_id task) in
           case env_mkdir_error env of
             Some e \<Rightarrow> (Inl e, w)
           | None \<Rightarrow>
               (let w = w\<lparr> dirs := (if task_dir \<in> set (dirs w) then dirs w else dirs w @ [task_dir]) \<rparr> in
                case env_write_error env of
                  Some e \<Rightarrow> (Inl e, w)
                | None \<Rightarrow>
                    (let fs = foldl (\<lambda>fs (filename, content).
                                       write_file (path_join task_dir filename) (Some content) fs)
                                (files w) (or_empty (t_input_files task));
                         fs = write_file (path_join task_dir ''prompt.txt'') (Some (t_prompt task)) fs
                     in (Inr task_dir, w\<lparr> files := fs \<rparr>)))))"

text \<open>The result built by the handler \<open>except Exception as e\<close>.\<close>

definition failed_result :: "AgentTask \<Rightarrow> task_env \<Rightarrow> string \<Rightarrow> exn \<Rightarrow> AgentResult" where
  "failed_result task env task_dir e =
     \<lparr> agent_name = t_agent_name task, task_id = t_task_id task, success = False,
       output_text = [], error = Some (exn_str e),
       execution_time = env_end_time env - env_start_time env,
       output_files = None,
       metadata = Some [(''workspace'', MStr task_dir)] \<rparr>"

text \<open>The files of the task directory that can be read as text, \<open>prompt.txt\<close> left out,
  under their paths relative to the directory.\<close>

definition collect_output_files :: "string \<Rightarrow> (string \<times> string option) list \<Rightarrow> (string \<times> string) list" where
  "collect_output_files task_dir fs =
     concat (map (\<lambda>(p, c).
                if startswith p (task_dir @ ''/'') \<and> basename p \<noteq> ''prompt.txt''
                then (case c of Some content \<Rightarrow> [(drop (length task_dir + 1) p, content)] | None \<Rightarrow> [])
                else [])
             fs)"

text \<open>
  \<open>_execute_agent_task\<close>. The workspace is created before the \<open>try\<close>: an exception of
  \<open>_create_task_workspace\<close> leaves the function (\<open>Inl\<close>). Everything after it is inside
  the \<open>try\<close>, whose handler turns every exception into a failed result. Nothing in the
  function removes the task directory.
\<close>

definition execute_agent_task :: "world \<Rightarrow> AgentTask \<Rightarrow> task_env \<Rightarrow> (exn + AgentResult) \<times> world" where
  "execute_agent_task w task env =
     (case create_task_workspace w task env of
        (Inl e, w) \<Rightarrow> (Inl e, w)
      | (Inr task_dir, w) \<Rightarrow>
          (case env_spawn_error env of
             Some e \<Rightarrow> (Inr (failed_result task env task_dir e), w)
           | None \<Rightarrow>
               (let w = w\<lparr> active_processes := active_processes w @ [t_task_id task] \<rparr>;
                    w = w\<lparr> files := foldl (\<lambda>fs (p, c). write_file (path_join task_dir p) c fs)
                                        (files w) (env_written env) \<rparr>;
                    w = w\<lparr> active_processes := filter (\<lambda>t. t \<noteq> t_task_id task) (active_processes w) \<rparr>
                in case env_outcome env of
                     TimedOut \<Rightarrow>
                       (Inr (failed_result task env task_dir
                               (Exn ''TimeoutError''
                                  (''Task '' @ t_task_id task @ '' timed out after '' @
                                   str_int (t_timeout task) @ '' seconds''))),
                        w\<lparr> stopped := stopped w @ [t_task_id task] \<rparr>)
                   | Completed out err returncode \<Rightarrow>
                       (case env_collect_error env of
                          Some e \<Rightarrow> (Inr (failed_result task env task_dir e), w)
                        | None \<Rightarrow>
                            (let ok = (returncode = 0);
                                 err_text = (if err \<noteq> [] then Some err else None);
                                 err_text =
                                   (if \<not> ok \<and> or_empty err_text = []
                                    then Some (''Process exited with code '' @ str_int returncode)
                                    else err_text)
                             in (Inr \<lparr> agent_name = t_agent_name task, task_id = t_task_id task,
                                       success = ok, output_text = out, error = err_text,
                                       execution_time = env_end_time env - env_start_time env,
                                       output_files = Some (collect_output_files task_dir (files w)),
                                       metadata = Some [(''return_code'', MInt returncode),
                                                        (''workspace'', MStr task_dir)] \<rparr>, w))))))"

text \<open>\<open>cleanup\<close>: the active processes are stopped and forgotten; when \<open>temp_dir\<close> is set and
  exists, the whole tree under it is removed.\<close>

definition cleanup :: "world \<Rightarrow> world" where
  "cleanup w =
     (let w = w\<lparr> stopped := stopped w @ active_processes w, active_processes := [] \<rparr> in
      case temp_dir w of
        None \<Rightarrow> w
      | Some tmp \<Rightarrow>
          (if tmp \<in> set (dirs w)
           then w\<lparr> dirs := filter (\<lambda>d. \<not> under tmp d) (dirs w),
                   files := filter (\<lambda>(p, c). \<not> under tmp p) (files w) \<rparr>
           else w))"

text \<open>
  \<open>asyncio.gather(*async_tasks, return_exceptions=True)\<close>: every task is run and its
  result or its exception is put at the task's place. The runs are interleaved in
  Python; the model runs them one after the other, the \<open>i\<close>-th in the environment
  \<open>env i\<close>.
\<close>

fun gather :: "world \<Rightarrow> (nat \<Rightarrow> task_env) \<Rightarrow> nat \<Rightarrow> AgentTask list \<Rightarrow> (exn + AgentResult) list \<times> world" where
  "gather w env i [] = ([], w)"
| "gather w env i (task # tasks) =
     (let (r, w) = execute_agent_task w task (env i);
          (rs, w) = gather w env (Suc i) tasks
      in (r # rs, w))"

definition execute_parallel_tasks :: "world \<Rightarrow> (nat \<Rightarrow> task_env) \<Rightarrow> AgentTask list \<Rightarrow> AgentResult list \<times> world" where
  "execute_parallel_tasks w env tasks =
     (if tasks = [] then ([], w)
      else
        (let (results, w) = gather w env 0 tasks;
             final_results =
               map (\<lambda>(i, result).
                      case result of
                        Inl e \<Rightarrow>
                          \<lparr> agent_name = t_agent_name (tasks ! i), task_id = t_task_id (tasks ! i),
                            success = False, output_text = [], error = Some (exn_str e),
                            execution_time = 0.0, output_files = None, metadata = None \<rparr>
                      | Inr r \<Rightarrow> r)
                   (enumerate 0 results)
         in (final_results, w)))"

text \<open>The loop \<open>for result in results: if result.success: selected_result = result; break\<close>.\<close>

fun first_successful :: "AgentResult list \<Rightarrow> AgentResult option" where
  "first_successful [] = None"
| "first_successful (r # rs) = (if success r then Some r else first_successful rs)"

text \<open>The clock of one orchestration: \<open>time.time()\<close> at the start, at the creation of the
  \<open>i\<close>-th task (as the integer of the task id), and at the end.\<close>

record clock =
  clk_start :: real
  clk_stamp :: "nat \<Rightarrow> int"
  clk_end :: real

text \<open>\<open>str(language)\<close> for an optional text, and \<open>language + ' ' if language else ''\<close>.\<close>

definition str_opt :: "string option \<Rightarrow> string" where
  "str_opt language = (case language of None \<Rightarrow> ''None'' | Some l \<Rightarrow> l)"

definition lang_prefix :: "string option \<Rightarrow> string" where
  "lang_prefix language = (if no_language language then [] else or_empty language @ '' '')"

definition meta_opt :: "string option \<Rightarrow> meta_value" where
  "meta_opt language = (case language of None \<Rightarrow> MNone | Some l \<Rightarrow> MStr l)"

definition design_prompt :: "string \<Rightarrow> string option \<Rightarrow> string" where
  "design_prompt prompt language =
     ''Design a '' @ lang_prefix language @ ''system based on this description:'' @ [nl, nl] @
     prompt @ [nl, nl] @
     ''Provide a comprehensive architectural design document with:'' @ [nl] @
     ''1. System overview and architecture'' @ [nl] @
     ''2. Core components and their responsibilities'' @ [nl] @
     ''3. Data models and interfaces'' @ [nl] @
     ''4. Technology stack and dependencies'' @ [nl] @
     ''5. Implementation considerations'' @ [nl, nl] @
     ''Focus on creating a well-structured, implementable design that follows '' @
     str_opt language @ '' best practices if specified.''"

definition feature_prompt :: "string \<Rightarrow> string option \<Rightarrow> string option \<Rightarrow> string" where
  "feature_prompt section_id language app_md_content =
     ''Generate detailed implementation specifications for section '' @ section_id @ ''.'' @ [nl, nl] @
     (if or_empty app_md_content \<noteq> [] then ''Context from app.md:'' else []) @ [nl] @
     or_empty app_md_content @ [nl, nl] @
     ''Create a comprehensive implementation specification that:'' @ [nl] @
     ''1. Preserves exact subsection structure from the original section'' @ [nl] @
     ''2. Provides detailed implementation guidance'' @ [nl] @
     ''3. Includes specific '' @ lang_prefix language @ ''code patterns and approaches'' @ [nl] @
     ''4. Specifies data structures, algorithms, and interfaces'' @ [nl] @
     ''5. Addresses error handling and edge cases'' @ [nl, nl] @
     ''Ensure the output maintains structural integrity and follows '' @
     str_opt language @ '' best practices if specified.''"

definition development_prompt :: "string list \<Rightarrow> string \<Rightarrow> (string \<times> string) list option \<Rightarrow> string" where
  "development_prompt feat_specs language feat_content =
     ''Generate working '' @ language @ '' code from these feature specifications:'' @ [nl, nl] @
     ''Feature specifications: '' @ join '', '' feat_specs @ [nl, nl] @
     (if or_empty feat_content \<noteq> [] then ''Feature content provided in input files.'' else []) @ [nl, nl] @
     ''Create a complete, working codebase that:'' @ [nl] @
     ''1. Implements all specified features with proper '' @ language @ '' idioms'' @ [nl] @
     ''2. Includes comprehensive test suites'' @ [nl] @
     ''3. Provides proper documentation and comments'' @ [nl] @
     ''4. Uses appropriate project structure for '' @ language @ [nl] @
     ''5. Includes build and deployment configurations'' @ [nl, nl] @
     ''Focus on creating production-ready, well-tested code that follows '' @ language @
     '' best practices.''"

text \<open>The tasks the three orchestrations build, one per agent, in the order of the
  agents; \<open>timeout_seconds\<close> is \<open>config['orchestration']['execution_timeout_seconds']\<close>.\<close>

definition design_tasks :: "clock \<Rightarrow> int \<Rightarrow> string \<Rightarrow> string list \<Rightarrow> string option \<Rightarrow> AgentTask list" where
  "design_tasks clk timeout_seconds prompt agents language =
     map (\<lambda>(i, name).
            \<lparr> t_agent_name = name, t_prompt = design_prompt prompt language,
              t_task_id = ''design_'' @ str_nat i @ ''_'' @ str_int (clk_stamp clk i),
              t_timeout = timeout_seconds, t_input_files = None, t_expected_outputs = None \<rparr>)
         (enumerate 0 agents)"

definition feature_tasks ::
  "clock \<Rightarrow> int \<Rightarrow> string \<Rightarrow> string list \<Rightarrow> string option \<Rightarrow> string option \<Rightarrow> AgentTask list" where
  "feature_tasks clk timeout_seconds section_id agents language app_md_content =
     map (\<lambda>(i, name).
            \<lparr> t_agent_name = name,
              t_prompt = feature_prompt section_id language app_md_content,
              t_task_id = ''feat_'' @ section_id @ ''_'' @ str_nat i @ ''_'' @
                          str_int (clk_stamp clk i),
              t_timeout = timeout_seconds,
              t_input_files =
                Some (if or_empty app_md_content \<noteq> []
                      then [(''app.md'', or_empty app_md_content)] else []),
              t_expected_outputs = None \<rparr>)
         (enumerate 0 agents)"

definition development_tasks ::
  "clock \<Rightarrow> int \<Rightarrow> string list \<Rightarrow> string list \<Rightarrow> string \<Rightarrow> (string \<times> string) list option
     \<Rightarrow> AgentTask list" where
  "development_tasks clk timeout_seconds feat_specs agents language feat_content =
     map (\<lambda>(i, name).
            \<lparr> t_agent_name = name,
              t_prompt = development_prompt feat_specs language feat_content,
              t_task_id = ''dev_'' @ str_nat i @ ''_'' @ str_int (clk_stamp clk i),
              t_timeout = timeout_seconds,
              t_input_files = Some (or_empty feat_content),
              t_expected_outputs = None \<rparr>)
         (enumerate 0 agents)"

text \<open>The three orchestrations. Each builds its tasks, runs \<open>execute_parallel_tasks\<close> on
  them, and selects with the loop \<open>first_successful\<close>.\<close>

definition orchestrate_design ::
  "world \<Rightarrow> (nat \<Rightarrow> task_env) \<Rightarrow> clock \<Rightarrow> int \<Rightarrow> string \<Rightarrow> string list \<Rightarrow> string option
     \<Rightarrow> OrchestrationResult \<times> world" where
  "orchestrate_design w env clk timeout_seconds prompt agents language =
     (let tasks = design_tasks clk timeout_seconds prompt agents language;
          (results, w) = execute_parallel_tasks w env tasks;
          selected = first_successful results
      in (\<lparr> task_type = ''design'', o_success = (selected \<noteq> None), selected_result = selected,
            all_results = Some results, o_execution_time = clk_end clk - clk_start clk,
            o_metadata = Some [(''language'', meta_opt language),
                               (''agent_count'', MInt (int (length agents))),
                               (''prompt'', MStr prompt)] \<rparr>, w))"

definition orchestrate_feature ::
  "world \<Rightarrow> (nat \<Rightarrow> task_env) \<Rightarrow> clock \<Rightarrow> int \<Rightarrow> string \<Rightarrow> string list \<Rightarrow> string option
     \<Rightarrow> string option \<Rightarrow> OrchestrationResult \<times> world" where
  "orchestrate_feature w env clk timeout_seconds section_id agents language app_md_content =
     (let tasks = feature_tasks clk timeout_seconds section_id agents language app_md_content;
          (results, w) = execute_parallel_tasks w env tasks;
          selected = first_successful results
      in (\<lparr> task_type = ''feat'', o_success = (selected \<noteq> None), selected_result = selected,
            all_results = Some results, o_execution_time = clk_end clk - clk_start clk,
            o_metadata = Some [(''section_id'', MStr section_id),
                               (''language'', meta_opt language),
                               (''agent_count'', MInt (int (length agents)))] \<rparr>, w))"

definition orchestrate_development ::
  "world \<Rightarrow> (nat \<Rightarrow> task_env) \<Rightarrow> clock \<Rightarrow> int \<Rightarrow> string list \<Rightarrow> string list \<Rightarrow> string
     \<Rightarrow> (string \<times> string) list option \<Rightarrow> OrchestrationResult \<times> world" where
  "orchestrate_development w env clk timeout_seconds feat_specs agents language feat_content =
     (let tasks = development_tasks clk timeout_seconds feat_specs agents language feat_content;
          (results, w) = execute_parallel_tasks w env tasks;
          selected = first_successful results
      in (\<lparr> task_type = ''dev'', o_success = (selected \<noteq> None), selected_result = selected,
            all_results = Some results, o_execution_time = clk_end clk - clk_start clk,
            o_metadata = Some [(''feat_specs'', MList feat_specs),
                               (''language'', MStr language),
                               (''agent_count'', MInt (int (length agents)))] \<rparr>, w))"

section \<open>Feature workflow (workflows/feat_workflow.py)\<close>

text \<open>
  The Persistence collaborator is seen through the calls made on it: \<open>save_feature\<close>
  with the section, the text and the metadata, and \<open>archive_candidates\<close> with the task
  type, the section and the results handed over. The calls are kept in a list, oldest
  first.
\<close>

datatype persist_call =
    SaveFeature string string "(string \<times> meta_value) list"
  | ArchiveCandidates string string "AgentResult list"

definition to_candidate :: "AgentResult \<Rightarrow> candidate" where
  "to_candidate r =
     \<lparr> c_agent_name = agent_name r, c_output = Some (output_text r), c_content = None,
       c_execution_time = execution_time r, c_metadata = metadata r \<rparr>"

definition evaluate_and_select_feature ::
  "(string \<Rightarrow> nat) \<Rightarrow> AgentResult list \<Rightarrow> string list \<Rightarrow> string option
     \<Rightarrow> exn + candidate \<times> (nat \<times> FeatScore) list" where
  "evaluate_and_select_feature rank agent_results expected_structure language =
     (let candidates = map to_candidate (filter success agent_results) in
      if candidates = [] then
        Inl (Exn ''RuntimeError'' ''No successful feature specification candidates generated'')
      else
        (case rank_features rank candidates (Some expected_structure) language of
           Inl e \<Rightarrow> Inl e
         | Inr evaluation_results \<Rightarrow>
             (case evaluation_results of
                [] \<Rightarrow> Inl (Exn ''IndexError'' ''list index out of range'')
              | (best_index, best_score) # others \<Rightarrow>
                  (if best_index < length candidates
                   then Inr (candidates ! best_index, evaluation_results)
                   else Inl (Exn ''IndexError'' ''list index out of range'')))))"

text \<open>What \<open>execute_feat_command\<close> returns: the failure dictionary of its handler with the
  error text, or the success dictionary with the path, the agent used, the evaluation
  score and the structural score.\<close>

datatype command_result =
    CommandFailed string
  | CommandSucceeded string string real real

text \<open>
  \<open>execute_feat_command\<close> from the point where the orchestration has returned. \<open>approve\<close>
  is the user's answer when \<open>user_feat_approval\<close> is configured (\<open>None\<close> when it is not),
  \<open>feat_path\<close> the path \<open>save_feature\<close> returns for a section. The handler
  \<open>except Exception\<close> turns every exception into the failure dictionary.
\<close>

definition feat_command_tail ::
  "(string \<Rightarrow> nat) \<Rightarrow> (candidate \<Rightarrow> (nat \<times> FeatScore) list \<Rightarrow> candidate) option \<Rightarrow> (string \<Rightarrow> string)
     \<Rightarrow> persist_call list \<Rightarrow> string \<Rightarrow> string \<Rightarrow> string option \<Rightarrow> string list
     \<Rightarrow> OrchestrationResult \<Rightarrow> command_result \<times> persist_call list" where
  "feat_command_tail rank approve feat_path calls command_line section_id language expected_structure
       orchestration_result =
     (if \<not> o_success orchestration_result then (CommandFailed ''Feature orchestration failed'', calls)
      else case all_results orchestration_result of
        None \<Rightarrow> (CommandFailed ([CHR 0x27] @ ''NoneType'' @ [CHR 0x27] @ '' object is not iterable''), calls)
      | Some results \<Rightarrow>
        (case evaluate_and_select_feature rank results expected_structure language of
           Inl e \<Rightarrow> (CommandFailed (exn_str e), calls)
         | Inr (selected_feat, evaluation_results) \<Rightarrow>
             (let selected_feat =
                    (case approve of None \<Rightarrow> selected_feat
                     | Some ask \<Rightarrow> ask selected_feat evaluation_results);
                  text_selected = or_empty (c_output selected_feat);
                  structural_score =
                    (if expected_structure \<noteq> []
                     then structure_score (validate_structure rank text_selected expected_structure)
                     else 1.0);
                  evaluation_score =
                    (case evaluation_results of [] \<Rightarrow> 0.0
                     | (i, score) # others \<Rightarrow> overall_score score);
                  calls = calls @
                    [SaveFeature section_id text_selected
                       [(''command'', MStr command_line),
                        (''section_id'', MStr section_id),
                        (''language'', meta_opt language),
                        (''agent_name'', MStr (c_agent_name selected_feat)),
                        (''execution_time'', MFloat (o_execution_time orchestration_result)),
                        (''evaluation_score'', MFloat evaluation_score),
                        (''structural_integrity'', MFloat structural_score),
                        (''expected_structure'', MList expected_structure)]];
                  non_selected = filter (\<lambda>r. agent_name r \<noteq> c_agent_name selected_feat) results;
                  calls = (if non_selected \<noteq> []
                           then calls @ [ArchiveCandidates ''feat'' section_id non_selected]
                           else calls)
              in (CommandSucceeded (feat_path section_id) (c_agent_name selected_feat)
                    evaluation_score structural_score, calls))))"

section \<open>Predicates of the statements\<close>

text \<open>A run in which nothing fails: the engine has its temporary directory, no step
  raises, and the worker process ends by itself with exit status 0.\<close>

definition run_succeeds :: "world \<Rightarrow> task_env \<Rightarrow> bool" where
  "run_succeeds w env =
     (temp_dir w \<noteq> None \<and> env_mkdir_error env = None \<and> env_write_error env = None \<and>
      env_spawn_error env = None \<and> env_collect_error env = None \<and>
      (case env_outcome env of Completed out err returncode \<Rightarrow> returncode = 0 | TimedOut \<Rightarrow> False))"

text \<open>An orchestration result whose \<open>all_results\<close> is the list \<open>results\<close>, whose
  selection is the first successful result of that list, in the order of the list, and
  whose success flag says that there is one.\<close>

definition first_success_of :: "AgentResult list \<Rightarrow> OrchestrationResult \<Rightarrow> bool" where
  "first_success_of results R =
     (all_results R = Some results \<and>
      (o_success R \<longleftrightarrow> (\<exists>r\<in>set results. success r)) \<and>
      (case selected_result R of
         None \<Rightarrow> \<forall>r\<in>set results. \<not> success r
       | Some r \<Rightarrow>
           \<exists>i<length results. results ! i = r \<and> success r \<and>
              (\<forall>j<i. \<not> success (results ! j))))"

text \<open>An orchestration of the agents \<open>agents\<close> by the tasks \<open>tasks\<close>: there is one task
  for each agent, in the order of the agents; \<open>all_results\<close> is what
  \<open>execute_parallel_tasks\<close> returns for these tasks, so that its \<open>i\<close>-th result is the
  result of the \<open>i\<close>-th agent and succeeds exactly when the run of that agent had no
  failure; and the selection is the first successful one of these results.\<close>

definition orchestrates ::
  "world \<Rightarrow> (nat \<Rightarrow> task_env) \<Rightarrow> string list \<Rightarrow> AgentTask list \<Rightarrow> OrchestrationResult \<Rightarrow> bool" where
  "orchestrates w env agents tasks R =
     (map t_agent_name tasks = agents \<and>
      first_success_of (fst (execute_parallel_tasks w env tasks)) R \<and>
      length (fst (execute_parallel_tasks w env tasks)) = length agents \<and>
      (\<forall>i<length agents.
         agent_name (fst (execute_parallel_tasks w env tasks) ! i) = agents ! i \<and>
         success (fst (execute_parallel_tasks w env tasks) ! i) = run_succeeds w (env i)))"

text \<open>The exception, if any, that the environment raises in a run.\<close>

definition raised_in :: "task_env \<Rightarrow> exn \<Rightarrow> bool" where
  "raised_in env e =
     (env_mkdir_error env = Some e \<or> env_write_error env = Some e \<or>
      env_spawn_error env = Some e \<or> env_collect_error env = Some e)"

text \<open>A criterion result whose score lies between 0 and 1.\<close>

definition unit_score :: "real \<times> string list \<times> string list \<Rightarrow> bool" where
  "unit_score r = (0 \<le> fst r \<and> fst r \<le> 1)"

text \<open>The candidates that have a non-empty text, with their places in the list.\<close>

definition scorable :: "candidate list \<Rightarrow> (nat \<times> candidate) list" where
  "scorable cands = filter (\<lambda>(i, c). candidate_text c \<noteq> []) (enumerate 0 cands)"

section \<open>Concrete inputs of the examples\<close>

text \<open>An iteration order that lists set elements in the order of their first occurrence.\<close>

definition first_occurrence_order :: "string \<Rightarrow> nat" where
  "first_occurrence_order s = 0"

definition engine0 :: world where
  "engine0 = \<lparr> temp_dir = Some ''/tmp/claude_orchestration_x'', active_processes = [], stopped = [],
                dirs = [''/tmp/claude_orchestration_x''], files = [] \<rparr>"

definition task0 :: AgentTask where
  "task0 = \<lparr> t_agent_name = ''gad'', t_prompt = ''Design a simple timer application'',
              t_task_id = ''test_task_1'', t_timeout = 300, t_input_files = None,
              t_expected_outputs = None \<rparr>"

text \<open>A run that ends well, one that fails with exit status 1, one that times out, and one
  in which writing the prompt file fails.\<close>

definition env_ok :: task_env where
  "env_ok = \<lparr> env_start_time = 0, env_end_time = 2, env_mkdir_error = None, env_write_error = None,
               env_spawn_error = None, env_outcome = Completed ''# Design'' [] 0,
               env_written = [(''design.md'', Some ''# Design'')], env_collect_error = None \<rparr>"

definition env_exit1 :: task_env where
  "env_exit1 = env_ok\<lparr> env_outcome := Completed [] [] 1, env_written := [] \<rparr>"

definition env_timeout :: task_env where
  "env_timeout = env_ok\<lparr> env_outcome := TimedOut, env_written := [] \<rparr>"

definition env_disk_full :: task_env where
  "env_disk_full = env_ok\<lparr> env_write_error := Some (Exn ''OSError'' ''[Errno 28] No space left on device'') \<rparr>"

definition clock0 :: clock where
  "clock0 = \<lparr> clk_start = 0, clk_stamp = (\<lambda>i. 17), clk_end = 5 \<rparr>"

text \<open>Two agents: the run of the first exits with status 1, the run of the second ends well.\<close>

definition env_second_ok :: "nat \<Rightarrow> task_env" where
  "env_second_ok i = (if i = 0 then env_exit1 else env_ok)"

text \<open>Three tasks: the first times out, the workspace of the second cannot be written, the
  third ends well.\<close>

definition env_three :: "nat \<Rightarrow> task_env" where
  "env_three i = (if i = 0 then env_timeout else if i = 1 then env_disk_full else env_ok)"

text \<open>A result of a worker that exited with status 1, and the orchestration result of a
  round in which it is the only result.\<close>

definition failed0 :: AgentResult where
  "failed0 = \<lparr> agent_name = ''gad'', task_id = ''feat_2_0_17'', success = False, output_text = [],
                error = Some ''Process exited with code 1'', execution_time = 2,
                output_files = Some [], metadata = None \<rparr>"

definition round_failed :: OrchestrationResult where
  "round_failed = \<lparr> task_type = ''feat'', o_success = False, selected_result = None,
                     all_results = Some [failed0], o_execution_time = 5, o_metadata = None \<rparr>"

definition feat_path0 :: "string \<Rightarrow> string" where
  "feat_path0 section_id = ''feat_'' @ section_id @ ''.md''"

text \<open>Two feature candidates for the expected section \<open>overview\<close>: the first has no header
  (the section is missing) and a text rich in the words the criteria look for; the second
  has the header and nothing else.\<close>

definition cand_rich :: candidate where
  "cand_rich = \<lparr> c_agent_name = ''gad'',
                  c_output = Some ''function method class struct interface algorithm api memory security test step error'',
                  c_content = None, c_execution_time = 1, c_metadata = None \<rparr>"

definition cand_header :: candidate where
  "cand_header = \<lparr> c_agent_name = ''bob'', c_output = Some ''# Overview'',
                    c_content = None, c_execution_time = 1, c_metadata = None \<rparr>"

definition cand_empty :: candidate where
  "cand_empty = \<lparr> c_agent_name = ''eve'', c_output = Some [],
                   c_content = None, c_execution_time = 1, c_metadata = None \<rparr>"

text \<open>A run in which the event loop cannot start processes:
  \<open>create_subprocess_exec\<close> raises \<open>NotImplementedError()\<close>, whose text is empty.\<close>

definition env_spawn_unsupported :: task_env where
  "env_spawn_unsupported = env_ok\<lparr> env_spawn_error := Some (Exn ''NotImplementedError'' []) \<rparr>"

definition env_unsupported :: "nat \<Rightarrow> task_env" where
  "env_unsupported i = env_spawn_unsupported"

text \<open>An iteration order that lists shorter names first.\<close>

definition shorter_first :: "string \<Rightarrow> nat" where
  "shorter_first s = length s"

text \<open>A candidate whose text says little.\<close>

definition cand_plain :: candidate where
  "cand_plain = \<lparr> c_agent_name = ''joe'', c_output = Some ''plain words'',
                   c_content = None, c_execution_time = 1, c_metadata = None \<rparr>"

section \<open>Structural validation\<close>

lemma length_set_difference_list:
  "length (set_difference_list rank xs ys) = card (set xs - set ys)"
proof -
  have "set (filter (\<lambda>x. x \<notin> set ys) xs) = set xs - set ys" by auto
  then show ?thesis
    by (simp add: set_difference_list_def length_remdups_card_conv del: set_filter)
qed

lemma set_set_difference_list:
  "set (set_difference_list rank xs ys) = set xs - set ys"
  by (auto simp: set_difference_list_def)

text \<open>
  C4, as the code has it. \<open>validate_structure\<close> gives the structure score 1 when the
  expected list is empty; otherwise the penalty, 0.3 for each missing section and 0.1
  for each extra section (distinct titles), is divided by the number of entries of the
  expected list before it is subtracted from 1, with the floor 0.
\<close>

theorem validate_structure_score:
  "structure_score (validate_structure rank content expected) =
     (if expected = [] then 1
      else max 0 (1 - (0.3 * real (card (set expected - set (extract_section_structure content)))
                       + 0.1 * real (card (set (extract_section_structure content) - set expected)))
                      / real (length expected)))"
proof -
  let ?found = "extract_section_structure content"
  let ?m = "set_difference_list rank expected ?found"
  let ?x = "set_difference_list rank ?found expected"
  have m: "length ?m = card (set expected - set ?found)" by (rule length_set_difference_list)
  have x: "length ?x = card (set ?found - set expected)" by (rule length_set_difference_list)
  show ?thesis
  proof (cases "expected = []")
    case True
    then show ?thesis by (simp add: validate_structure_def Let_def)
  next
    case ne: False
    show ?thesis
    proof (cases "?m \<noteq> [] \<or> ?x \<noteq> []")
      case True
      then show ?thesis using ne m x
        by (simp add: validate_structure_def Let_def algebra_simps)
    next
      case False
      then have "length ?m = 0" "length ?x = 0" by simp_all
      with m x have "card (set expected - set ?found) = 0" "card (set ?found - set expected) = 0"
        by simp_all
      then show ?thesis using ne False
        by (simp add: validate_structure_def Let_def)
    qed
  qed
qed

theorem validate_structure_score_witness:
  "structure_score (validate_structure first_occurrence_order [] [''a'', ''b'']) = 7 / 10"
  using validate_structure_score [of first_occurrence_order "[]" "[''a'', ''b'']"]
  by (simp add: extract_section_structure_def finditer_def header_pattern_def plus_re_def)

text \<open>
  C4 as stated fails: with the expected sections \<open>a\<close> and \<open>b\<close> and an empty document,
  two sections are missing and none is extra; the stated score is 1 - 0.6 = 0.4, the
  code returns 1 - 0.6 / 2 = 0.7.
\<close>

theorem validate_structure_penalty_counterexample:
  "structure_score (validate_structure first_occurrence_order [] [''a'', ''b''])
     \<noteq> max 0 (1 - (0.3 * real (length (missing_sections (validate_structure first_occurrence_order [] [''a'', ''b''])))
                   + 0.1 * real (length (extra_sections (validate_structure first_occurrence_order [] [''a'', ''b''])))))"
  by (simp add: validate_structure_def set_difference_list_def first_occurrence_order_def
      extract_section_structure_def finditer_def header_pattern_def plus_re_def Let_def)

section \<open>Orchestration engine\<close>

lemma first_successful_None: "first_successful rs = None \<longleftrightarrow> (\<forall>r\<in>set rs. \<not> success r)"
  by (induction rs) auto

lemma first_successful_Some:
  "first_successful rs = Some r \<Longrightarrow>
     \<exists>i<length rs. rs ! i = r \<and> success r \<and> (\<forall>j<i. \<not> success (rs ! j))"
proof (induction rs)
  case Nil
  then show ?case by simp
next
  case (Cons a rs)
  show ?case
  proof (cases "success a")
    case True
    with Cons.prems have "a = r" by simp
    with True show ?thesis by (intro exI[of _ 0]) simp
  next
    case False
    with Cons.prems have "first_successful rs = Some r" by simp
    from Cons.IH[OF this] obtain i where i: "i < length rs" "rs ! i = r" "success r"
      "\<forall>j<i. \<not> success (rs ! j)" by blast
    have "\<forall>j<Suc i. \<not> success ((a # rs) ! j)"
    proof (intro allI impI)
      fix j assume "j < Suc i"
      then show "\<not> success ((a # rs) ! j)" using False i(4) by (cases j) auto
    qed
    with i show ?thesis by (intro exI[of _ "Suc i"]) simp
  qed
qed

lemma create_task_workspace_temp_dir:
  "temp_dir (snd (create_task_workspace w task env)) = temp_dir w"
  by (simp add: create_task_workspace_def Let_def split: option.splits)

lemma execute_agent_task_temp_dir:
  "temp_dir (snd (execute_agent_task w task env)) = temp_dir w"
proof (cases "create_task_workspace w task env")
  case (Pair res w1)
  have t: "temp_dir w1 = temp_dir w"
    using create_task_workspace_temp_dir[of w task env] Pair by simp
  show ?thesis
  proof (cases res)
    case (Inl e)
    with Pair t show ?thesis by (simp add: execute_agent_task_def)
  next
    case (Inr task_dir)
    with Pair t show ?thesis
      by (simp add: execute_agent_task_def Let_def split: option.splits proc_outcome.splits)
  qed
qed

lemma create_task_workspace_Inl:
  "fst (create_task_workspace w task env) = Inl e \<Longrightarrow>
     temp_dir w = None \<or> env_mkdir_error env \<noteq> None \<or> env_write_error env \<noteq> None"
  by (auto simp: create_task_workspace_def Let_def split: option.splits)

lemma create_task_workspace_Inr:
  "fst (create_task_workspace w task env) = Inr d \<Longrightarrow>
     temp_dir w \<noteq> None \<and> env_mkdir_error env = None \<and> env_write_error env = None"
  by (auto simp: create_task_workspace_def Let_def split: option.splits)

lemma execute_agent_task_Inl:
  assumes "fst (execute_agent_task w task env) = Inl e"
  shows "\<not> run_succeeds w env"
proof (cases "create_task_workspace w task env")
  case (Pair res w1)
  show ?thesis
  proof (cases res)
    case (Inl x)
    with Pair have "fst (create_task_workspace w task env) = Inl x" by simp
    from create_task_workspace_Inl[OF this] show ?thesis by (auto simp: run_succeeds_def)
  next
    case (Inr d)
    with Pair assms show ?thesis
      by (simp add: execute_agent_task_def Let_def split: option.splits proc_outcome.splits)
  qed
qed

lemma execute_agent_task_Inr:
  assumes "fst (execute_agent_task w task env) = Inr r"
  shows "task_id r = t_task_id task \<and> agent_name r = t_agent_name task \<and>
         success r = run_succeeds w env \<and> (\<not> success r \<longrightarrow> error r \<noteq> None)"
proof (cases "create_task_workspace w task env")
  case (Pair res w1)
  show ?thesis
  proof (cases res)
    case (Inl x)
    with Pair assms show ?thesis by (simp add: execute_agent_task_def)
  next
    case (Inr d)
    with Pair have "fst (create_task_workspace w task env) = Inr d" by simp
    from create_task_workspace_Inr[OF this]
    have ws: "temp_dir w \<noteq> None" "env_mkdir_error env = None" "env_write_error env = None"
      by simp_all
    from Pair Inr assms ws show ?thesis
      by (auto simp: execute_agent_task_def Let_def failed_result_def run_succeeds_def or_empty_def
          split: option.splits proc_outcome.splits if_splits)
  qed
qed

lemma gather_length: "length (fst (gather w env k tasks)) = length tasks"
  by (induction tasks arbitrary: w k) (simp_all add: split_beta Let_def)

lemma gather_temp_dir: "temp_dir (snd (gather w env k tasks)) = temp_dir w"
  by (induction tasks arbitrary: w k) (simp_all add: split_beta Let_def execute_agent_task_temp_dir)

lemma gather_nth:
  "i < length tasks \<Longrightarrow>
     \<exists>w'. temp_dir w' = temp_dir w \<and>
          fst (gather w env k tasks) ! i = fst (execute_agent_task w' (tasks ! i) (env (k + i)))"
proof (induction tasks arbitrary: w k i)
  case Nil
  then show ?case by simp
next
  case (Cons task tasks)
  show ?case
  proof (cases i)
    case 0
    then show ?thesis by (auto simp: split_beta Let_def)
  next
    case (Suc i')
    with Cons.prems have "i' < length tasks" by simp
    from Cons.IH[OF this, of "snd (execute_agent_task w task (env k))" "Suc k"]
    obtain w' where "temp_dir w' = temp_dir (snd (execute_agent_task w task (env k)))"
      "fst (gather (snd (execute_agent_task w task (env k))) env (Suc k) tasks) ! i' =
       fst (execute_agent_task w' (tasks ! i') (env (Suc k + i')))" by blast
    then show ?thesis using Suc
      by (intro exI[of _ w']) (simp add: split_beta Let_def execute_agent_task_temp_dir)
  qed
qed

lemma run_succeeds_temp_dir:
  "temp_dir w' = temp_dir w \<Longrightarrow> run_succeeds w' env = run_succeeds w env"
  by (simp add: run_succeeds_def)

lemma execute_parallel_tasks_nth:
  assumes "i < length tasks"
  shows "fst (execute_parallel_tasks w env tasks) ! i =
           (case fst (gather w env 0 tasks) ! i of
              Inl e \<Rightarrow> \<lparr> agent_name = t_agent_name (tasks ! i), task_id = t_task_id (tasks ! i),
                         success = False, output_text = [], error = Some (exn_str e),
                         execution_time = 0.0, output_files = None, metadata = None \<rparr>
            | Inr r \<Rightarrow> r)"
proof -
  from assms have ne: "tasks \<noteq> []" by auto
  from assms have "i < length (fst (gather w env 0 tasks))" by (simp add: gather_length)
  then show ?thesis using ne
    by (simp add: execute_parallel_tasks_def split_beta Let_def nth_enumerate_eq split: sum.splits)
qed

lemma str_nat_nonempty: "str_nat n \<noteq> []"
  by (subst str_nat.simps) simp

lemma str_int_nonempty: "str_int i \<noteq> []"
  by (simp add: str_int_def str_nat_nonempty)

lemma execute_agent_task_Inl_text:
  assumes "fst (execute_agent_task w task env) = Inl e"
  shows "exn_str e \<noteq> [] \<or> raised_in env e"
proof (cases "create_task_workspace w task env")
  case (Pair res w1)
  show ?thesis
  proof (cases res)
    case (Inl x)
    with Pair assms have "x = e" by (simp add: execute_agent_task_def)
    with Pair Inl show ?thesis
      by (auto simp: create_task_workspace_def raised_in_def Let_def split: option.splits)
  next
    case (Inr d)
    with Pair assms show ?thesis
      by (simp add: execute_agent_task_def Let_def split: option.splits proc_outcome.splits)
  qed
qed

lemma execute_agent_task_Inr_text:
  assumes "fst (execute_agent_task w task env) = Inr r" "error r = Some []"
  shows "\<exists>e. raised_in env e \<and> exn_str e = []"
proof (cases "create_task_workspace w task env")
  case (Pair res w1)
  show ?thesis
  proof (cases res)
    case (Inl x)
    with Pair assms show ?thesis by (simp add: execute_agent_task_def)
  next
    case (Inr d)
    with Pair assms show ?thesis
      by (auto simp: execute_agent_task_def Let_def failed_result_def raised_in_def or_empty_def
          str_int_nonempty split: option.splits proc_outcome.splits if_splits)
  qed
qed

text \<open>
  For every list of tasks, \<open>execute_parallel_tasks\<close> returns one result for each task,
  in the order of the tasks: the \<open>i\<close>-th result carries the task id and the agent name
  of the \<open>i\<close>-th task. Its \<open>success\<close> is true exactly when the run of that task had no
  failure. Every result that is not a success has an error, and the text of that error
  is empty only when the environment raised an exception whose text is empty. The
  function has no exceptional outcome: the exceptions that \<open>gather\<close> hands back are
  turned into results.
\<close>

lemma execute_parallel_tasks_results:
  "length (fst (execute_parallel_tasks w env tasks)) = length tasks \<and>
   (\<forall>i<length tasks.
      task_id (fst (execute_parallel_tasks w env tasks) ! i) = t_task_id (tasks ! i) \<and>
      agent_name (fst (execute_parallel_tasks w env tasks) ! i) = t_agent_name (tasks ! i) \<and>
      success (fst (execute_parallel_tasks w env tasks) ! i) = run_succeeds w (env i) \<and>
      (\<not> success (fst (execute_parallel_tasks w env tasks) ! i) \<longrightarrow>
         error (fst (execute_parallel_tasks w env tasks) ! i) \<noteq> None) \<and>
      (error (fst (execute_parallel_tasks w env tasks) ! i) = Some [] \<longrightarrow>
         (\<exists>e. raised_in (env i) e \<and> exn_str e = [])))"
proof (intro conjI allI impI)
  show "length (fst (execute_parallel_tasks w env tasks)) = length tasks"
    by (simp add: execute_parallel_tasks_def split_beta Let_def gather_length)
next
  fix i assume i: "i < length tasks"
  let ?r = "fst (execute_parallel_tasks w env tasks) ! i"
  from gather_nth[OF i, of w env 0] obtain w' where
    w': "temp_dir w' = temp_dir w"
        "fst (gather w env 0 tasks) ! i = fst (execute_agent_task w' (tasks ! i) (env i))"
    by auto
  have "task_id ?r = t_task_id (tasks ! i) \<and> agent_name ?r = t_agent_name (tasks ! i) \<and>
        success ?r = run_succeeds w (env i) \<and> (\<not> success ?r \<longrightarrow> error ?r \<noteq> None) \<and>
        (error ?r = Some [] \<longrightarrow> (\<exists>e. raised_in (env i) e \<and> exn_str e = []))"
  proof (cases "fst (execute_agent_task w' (tasks ! i) (env i))")
    case (Inl e)
    from execute_agent_task_Inl[OF Inl] have "\<not> run_succeeds w (env i)"
      using run_succeeds_temp_dir[OF w'(1)] by simp
    moreover from execute_agent_task_Inl_text[OF Inl]
    have "exn_str e = [] \<longrightarrow> (\<exists>e. raised_in (env i) e \<and> exn_str e = [])" by blast
    ultimately show ?thesis using Inl w'(2) by (simp add: execute_parallel_tasks_nth[OF i])
  next
    case (Inr r)
    from execute_agent_task_Inr[OF Inr] execute_agent_task_Inr_text[OF Inr] show ?thesis
      using Inr w'(2) run_succeeds_temp_dir[OF w'(1)] by (simp add: execute_parallel_tasks_nth[OF i])
  qed
  then show "task_id ?r = t_task_id (tasks ! i)"
    and "agent_name ?r = t_agent_name (tasks ! i)"
    and "success ?r = run_succeeds w (env i)"
    and "\<not> success ?r \<Longrightarrow> error ?r \<noteq> None"
    and "error ?r = Some [] \<Longrightarrow> \<exists>e. raised_in (env i) e \<and> exn_str e = []"
    by simp_all
qed

lemma execute_parallel_tasks_example:
  "map (\<lambda>r. (task_id r, success r, error r))
     (fst (execute_parallel_tasks engine0 env_three [task0, task0\<lparr> t_task_id := ''t2'' \<rparr>, task0\<lparr> t_task_id := ''t3'' \<rparr>]))
   = [(''test_task_1'', False, Some ''Task test_task_1 timed out after 300 seconds''),
      (''t2'', False, Some ''[Errno 28] No space left on device''),
      (''t3'', True, None)]"
  by (simp add: execute_parallel_tasks_def Let_def split_beta
      execute_agent_task_def create_task_workspace_def engine0_def env_three_def env_timeout_def
      env_disk_full_def env_ok_def task0_def failed_result_def str_int_def
      path_join_def or_empty_def write_file_def enumerate_eq_zip digit_char_def)

text \<open>
  C1. \<open>execute_parallel_tasks\<close> returns one result for each task, in the order of the
  tasks, and a failure is a result with \<open>success = False\<close> and an error that is set
  (\<open>execute_parallel_tasks_results\<close>). The error text, though, is \<open>str(e)\<close> of the
  exception: it is empty when the text of the exception is. When the event loop cannot
  start processes, \<open>create_subprocess_exec\<close> raises \<open>NotImplementedError()\<close>, and the
  result of the task has the empty text as its error, where the claim wants an error
  text. For a process that ends with a non-zero status and no output on the error
  stream, the code does make up a text.
\<close>

theorem execute_parallel_tasks_empty_error:
  "map (\<lambda>r. (task_id r, success r, error r))
     (fst (execute_parallel_tasks engine0 env_unsupported [task0]))
   = [(''test_task_1'', False, Some [])]"
  by (simp add: execute_parallel_tasks_def Let_def split_beta
      execute_agent_task_def create_task_workspace_def engine0_def env_unsupported_def
      env_spawn_unsupported_def env_ok_def task0_def failed_result_def
      path_join_def or_empty_def write_file_def)

lemma first_success_ofI:
  assumes "all_results R = Some results" "selected_result R = first_successful results"
    "o_success R = (first_successful results \<noteq> None)"
  shows "first_success_of results R"
proof (cases "first_successful results")
  case None
  then have "\<forall>r\<in>set results. \<not> success r" by (simp only: first_successful_None)
  with None show ?thesis using assms
    by (simp add: first_success_of_def)
next
  case (Some r)
  from first_successful_Some[OF Some] obtain i where
    i: "i < length results" "results ! i = r" "success r" "\<forall>j<i. \<not> success (results ! j)"
    by blast
  then have "\<exists>r\<in>set results. success r" by (metis nth_mem)
  with Some i show ?thesis using assms
    by (auto simp: first_success_of_def)
qed

lemma orchestratesI:
  assumes "map t_agent_name tasks = agents"
    "all_results R = Some (fst (execute_parallel_tasks w env tasks))"
    "selected_result R = first_successful (fst (execute_parallel_tasks w env tasks))"
    "o_success R = (first_successful (fst (execute_parallel_tasks w env tasks)) \<noteq> None)"
  shows "orchestrates w env agents tasks R"
proof -
  from assms(1) have len: "length tasks = length agents" by (metis length_map)
  have nth: "t_agent_name (tasks ! i) = agents ! i" if "i < length agents" for i
    using that assms(1) len by (metis nth_map)
  from execute_parallel_tasks_results[of w env tasks] len nth
  have "length (fst (execute_parallel_tasks w env tasks)) = length agents"
    "\<forall>i<length agents.
         agent_name (fst (execute_parallel_tasks w env tasks) ! i) = agents ! i \<and>
         success (fst (execute_parallel_tasks w env tasks) ! i) = run_succeeds w (env i)"
    by simp_all
  moreover have "first_success_of (fst (execute_parallel_tasks w env tasks)) R"
    using assms(2,3,4) by (rule first_success_ofI)
  ultimately show ?thesis using assms(1) by (simp add: orchestrates_def)
qed

lemma map_fst_enumerate_pairs: "map (\<lambda>(i, name). name) (enumerate n xs) = xs"
  by (induction xs arbitrary: n) simp_all

lemma tasks_agent_names:
  "map t_agent_name (design_tasks clk t prompt agents language) = agents"
  "map t_agent_name (feature_tasks clk t section_id agents language app_md_content) = agents"
  "map t_agent_name (development_tasks clk t feat_specs agents dev_language feat_content) = agents"
  using map_fst_enumerate_pairs[of 0 agents]
  by (simp_all add: design_tasks_def feature_tasks_def development_tasks_def split_beta comp_def)

text \<open>
  C10. \<open>orchestrate_design\<close>, \<open>orchestrate_feature\<close> and
  \<open>orchestrate_development\<close> build one task for each agent, in the order of the agents,
  and run \<open>execute_parallel_tasks\<close> on these tasks; \<open>all_results\<close> of the returned
  orchestration result is the list of results of that run, the \<open>i\<close>-th result being
  the result of the \<open>i\<close>-th agent. The selected result is the first result of that
  list, in its order, that has \<open>success\<close>; no result before it has. When no result has
  \<open>success\<close>, nothing is selected. The success flag of the orchestration result is true
  exactly when some result has \<open>success\<close>. No score takes part in the selection.
\<close>

theorem orchestrate_selects_first_success:
  "orchestrates w env agents (design_tasks clk timeout_seconds prompt agents language)
     (fst (orchestrate_design w env clk timeout_seconds prompt agents language)) \<and>
   orchestrates w env agents (feature_tasks clk timeout_seconds section_id agents language app_md_content)
     (fst (orchestrate_feature w env clk timeout_seconds section_id agents language app_md_content)) \<and>
   orchestrates w env agents
     (development_tasks clk timeout_seconds feat_specs agents dev_language feat_content)
     (fst (orchestrate_development w env clk timeout_seconds feat_specs agents dev_language feat_content))"
proof (intro conjI)
  show "orchestrates w env agents (design_tasks clk timeout_seconds prompt agents language)
     (fst (orchestrate_design w env clk timeout_seconds prompt agents language))"
    by (rule orchestratesI) (simp_all add: tasks_agent_names orchestrate_design_def Let_def split_beta)
  show "orchestrates w env agents
     (feature_tasks clk timeout_seconds section_id agents language app_md_content)
     (fst (orchestrate_feature w env clk timeout_seconds section_id agents language app_md_content))"
    by (rule orchestratesI) (simp_all add: tasks_agent_names orchestrate_feature_def Let_def split_beta)
  show "orchestrates w env agents
     (development_tasks clk timeout_seconds feat_specs agents dev_language feat_content)
     (fst (orchestrate_development w env clk timeout_seconds feat_specs agents dev_language feat_content))"
    by (rule orchestratesI)
       (simp_all add: tasks_agent_names orchestrate_development_def Let_def split_beta)
qed

lemma orchestrate_design_example:
  "map (\<lambda>r. (agent_name r, success r))
     (or_empty (all_results (fst (orchestrate_design engine0 env_second_ok clock0 300 ''timer'' [''gad'', ''bob''] None))))
   = [(''gad'', False), (''bob'', True)] \<and>
   map_option agent_name
     (selected_result (fst (orchestrate_design engine0 env_second_ok clock0 300 ''timer'' [''gad'', ''bob''] None)))
   = Some ''bob'' \<and>
   o_success (fst (orchestrate_design engine0 env_second_ok clock0 300 ''timer'' [''gad'', ''bob''] None))"
  by (simp add: orchestrate_design_def design_tasks_def execute_parallel_tasks_def Let_def split_beta
      execute_agent_task_def create_task_workspace_def engine0_def env_second_ok_def env_exit1_def env_ok_def
      path_join_def or_empty_def write_file_def)

theorem orchestrate_selects_first_success_witness:
  "orchestrates engine0 env_second_ok [''gad'', ''bob'']
     (design_tasks clock0 300 ''timer'' [''gad'', ''bob''] None)
     (fst (orchestrate_design engine0 env_second_ok clock0 300 ''timer'' [''gad'', ''bob''] None)) \<and>
   map (\<lambda>r. (agent_name r, success r))
     (or_empty (all_results (fst (orchestrate_design engine0 env_second_ok clock0 300 ''timer'' [''gad'', ''bob''] None))))
   = [(''gad'', False), (''bob'', True)] \<and>
   map_option agent_name
     (selected_result (fst (orchestrate_design engine0 env_second_ok clock0 300 ''timer'' [''gad'', ''bob''] None)))
   = Some ''bob'' \<and>
   o_success (fst (orchestrate_design engine0 env_second_ok clock0 300 ''timer'' [''gad'', ''bob''] None))"
  using orchestrate_selects_first_success
          [of engine0 env_second_ok "[''gad'', ''bob'']" clock0 300 "''timer''" None]
        orchestrate_design_example
  by blast

section \<open>The sandbox\<close>

lemma execute_agent_task_workspace_fails:
  assumes "fst (create_task_workspace w task env) = Inl e"
  shows "fst (execute_agent_task w task env) = Inl e"
proof (cases "create_task_workspace w task env")
  case (Pair res w1)
  with assms show ?thesis by (simp add: execute_agent_task_def)
qed

lemma execute_agent_task_spawn_fails:
  assumes "fst (create_task_workspace w task env) = Inr d" "env_spawn_error env = Some e"
  shows "fst (execute_agent_task w task env) = Inr (failed_result task env d e)"
proof (cases "create_task_workspace w task env")
  case (Pair res w1)
  with assms show ?thesis by (simp add: execute_agent_task_def)
qed

lemma execute_agent_task_timeout:
  assumes "fst (create_task_workspace w task env) = Inr d" "env_spawn_error env = None"
    "env_outcome env = TimedOut"
  shows "fst (execute_agent_task w task env) =
           Inr (failed_result task env d
                  (Exn ''TimeoutError''
                     (''Task '' @ t_task_id task @ '' timed out after '' @
                      str_int (t_timeout task) @ '' seconds'')))"
    and "t_task_id task \<in> set (stopped (snd (execute_agent_task w task env)))"
    and "t_task_id task \<notin> set (active_processes (snd (execute_agent_task w task env)))"
proof -
  obtain res w1 where p: "create_task_workspace w task env = (res, w1)" by (cases "create_task_workspace w task env")
  with assms have r: "res = Inr d" by simp
  show "fst (execute_agent_task w task env) =
           Inr (failed_result task env d
                  (Exn ''TimeoutError''
                     (''Task '' @ t_task_id task @ '' timed out after '' @
                      str_int (t_timeout task) @ '' seconds'')))"
    using p r assms by (simp add: execute_agent_task_def Let_def)
  show "t_task_id task \<in> set (stopped (snd (execute_agent_task w task env)))"
    using p r assms by (simp add: execute_agent_task_def Let_def)
  show "t_task_id task \<notin> set (active_processes (snd (execute_agent_task w task env)))"
    using p r assms by (simp add: execute_agent_task_def Let_def)
qed

lemma execute_agent_task_collect_fails:
  assumes "fst (create_task_workspace w task env) = Inr d" "env_spawn_error env = None"
    "env_outcome env = Completed out err rc" "env_collect_error env = Some e"
  shows "fst (execute_agent_task w task env) = Inr (failed_result task env d e)"
proof (cases "create_task_workspace w task env")
  case (Pair res w1)
  with assms show ?thesis by (simp add: execute_agent_task_def Let_def)
qed

lemma execute_agent_task_returns:
  assumes "fst (create_task_workspace w task env) = Inr d"
  shows "\<exists>r. fst (execute_agent_task w task env) = Inr r"
proof (cases "create_task_workspace w task env")
  case (Pair res w1)
  with assms show ?thesis
    by (simp add: execute_agent_task_def Let_def split: option.splits proc_outcome.splits)
qed

text \<open>
  C2, as the code has it. Once \<open>_create_task_workspace\<close> has returned the task
  directory, \<open>_execute_agent_task\<close> returns a result whatever happens: a failure to
  start the process and a failure while the output is collected give a result with
  \<open>success = False\<close> and the text of the exception as error; a timeout gives a result
  with \<open>success = False\<close> and the error text
  \<open>Task <task_id> timed out after <timeout> seconds\<close>, the process is stopped and is no
  longer among the active processes. An exception of \<open>_create_task_workspace\<close>, which
  runs before the \<open>try\<close>, leaves \<open>_execute_agent_task\<close> as it is.
\<close>

theorem execute_agent_task_catches:
  "(\<forall>d. fst (create_task_workspace w task env) = Inr d \<longrightarrow>
      (\<exists>r. fst (execute_agent_task w task env) = Inr r \<and>
         (\<forall>e. env_spawn_error env = Some e \<longrightarrow> \<not> success r \<and> error r = Some (exn_str e)) \<and>
         (env_spawn_error env = None \<and> env_outcome env = TimedOut \<longrightarrow>
            \<not> success r \<and>
            error r = Some (''Task '' @ t_task_id task @ '' timed out after '' @
                            str_int (t_timeout task) @ '' seconds'') \<and>
            t_task_id task \<in> set (stopped (snd (execute_agent_task w task env))) \<and>
            t_task_id task \<notin> set (active_processes (snd (execute_agent_task w task env)))) \<and>
         (\<forall>e out err rc. env_spawn_error env = None \<and> env_outcome env = Completed out err rc \<and>
            env_collect_error env = Some e \<longrightarrow> \<not> success r \<and> error r = Some (exn_str e)))) \<and>
   (\<forall>e. fst (create_task_workspace w task env) = Inl e \<longrightarrow>
      fst (execute_agent_task w task env) = Inl e)"
proof (intro conjI allI impI)
  fix d assume d: "fst (create_task_workspace w task env) = Inr d"
  from execute_agent_task_returns[OF d] obtain r where r: "fst (execute_agent_task w task env) = Inr r"
    by blast
  have a: "\<forall>e. env_spawn_error env = Some e \<longrightarrow> \<not> success r \<and> error r = Some (exn_str e)"
    using execute_agent_task_spawn_fails[OF d] r by (auto simp: failed_result_def)
  have b: "env_spawn_error env = None \<and> env_outcome env = TimedOut \<longrightarrow>
            \<not> success r \<and>
            error r = Some (''Task '' @ t_task_id task @ '' timed out after '' @
                            str_int (t_timeout task) @ '' seconds'') \<and>
            t_task_id task \<in> set (stopped (snd (execute_agent_task w task env))) \<and>
            t_task_id task \<notin> set (active_processes (snd (execute_agent_task w task env)))"
    using execute_agent_task_timeout[OF d] r by (auto simp: failed_result_def)
  have c: "\<forall>e out err rc. env_spawn_error env = None \<and> env_outcome env = Completed out err rc \<and>
            env_collect_error env = Some e \<longrightarrow> \<not> success r \<and> error r = Some (exn_str e)"
    using execute_agent_task_collect_fails[OF d] r by (auto simp: failed_result_def)
  from r a b c show "\<exists>r. fst (execute_agent_task w task env) = Inr r \<and>
         (\<forall>e. env_spawn_error env = Some e \<longrightarrow> \<not> success r \<and> error r = Some (exn_str e)) \<and>
         (env_spawn_error env = None \<and> env_outcome env = TimedOut \<longrightarrow>
            \<not> success r \<and>
            error r = Some (''Task '' @ t_task_id task @ '' timed out after '' @
                            str_int (t_timeout task) @ '' seconds'') \<and>
            t_task_id task \<in> set (stopped (snd (execute_agent_task w task env))) \<and>
            t_task_id task \<notin> set (active_processes (snd (execute_agent_task w task env)))) \<and>
         (\<forall>e out err rc. env_spawn_error env = None \<and> env_outcome env = Completed out err rc \<and>
            env_collect_error env = Some e \<longrightarrow> \<not> success r \<and> error r = Some (exn_str e))"
    by blast
next
  fix e assume "fst (create_task_workspace w task env) = Inl e"
  then show "fst (execute_agent_task w task env) = Inl e" by (rule execute_agent_task_workspace_fails)
qed

lemma execute_agent_task_timeout_example:
  "map_sum id (\<lambda>r. (success r, error r)) (fst (execute_agent_task engine0 task0 env_timeout))
     = Inr (False, Some ''Task test_task_1 timed out after 300 seconds'') \<and>
   stopped (snd (execute_agent_task engine0 task0 env_timeout)) = [''test_task_1'']"
  by (simp add: execute_agent_task_def create_task_workspace_def engine0_def env_timeout_def env_ok_def
      task0_def failed_result_def str_int_def path_join_def or_empty_def write_file_def digit_char_def
      Let_def)

theorem execute_agent_task_catches_witness:
  "fst (create_task_workspace engine0 task0 env_timeout) = Inr ''/tmp/claude_orchestration_x/test_task_1'' \<and>
   env_spawn_error env_timeout = None \<and> env_outcome env_timeout = TimedOut \<and>
   map_sum id (\<lambda>r. (success r, error r)) (fst (execute_agent_task engine0 task0 env_timeout))
     = Inr (False, Some ''Task test_task_1 timed out after 300 seconds'') \<and>
   stopped (snd (execute_agent_task engine0 task0 env_timeout)) = [''test_task_1'']"
  using execute_agent_task_catches [of engine0 task0 env_timeout] execute_agent_task_timeout_example
  by (simp add: create_task_workspace_def engine0_def env_timeout_def env_ok_def task0_def
      path_join_def Let_def)

text \<open>
  C2 as stated fails: when writing the prompt file fails (the disk is full), the
  exception leaves \<open>_execute_agent_task\<close>; no result is returned.
\<close>

theorem execute_agent_task_raises_counterexample:
  "fst (execute_agent_task engine0 task0 env_disk_full)
     = Inl (Exn ''OSError'' ''[Errno 28] No space left on device'')"
  by (simp add: execute_agent_task_def create_task_workspace_def engine0_def env_disk_full_def env_ok_def
      task0_def path_join_def Let_def)

lemma under_path_join: "under tmp (path_join tmp name)"
  by (simp add: under_def startswith_def path_join_def)

lemma create_task_workspace_dirs:
  assumes "temp_dir w = Some tmp" "env_mkdir_error env = None"
  shows "set (dirs (snd (create_task_workspace w task env)))
           = insert (path_join tmp (t_task_id task)) (set (dirs w))"
  using assms by (auto simp: create_task_workspace_def Let_def split: option.splits)

lemma execute_agent_task_dirs:
  "dirs (snd (execute_agent_task w task env)) = dirs (snd (create_task_workspace w task env))"
proof (cases "create_task_workspace w task env")
  case (Pair res w1)
  then show ?thesis
    by (cases res) (simp_all add: execute_agent_task_def Let_def split: option.splits proc_outcome.splits)
qed

lemma cleanup_dirs:
  assumes "temp_dir w = Some tmp" "tmp \<in> set (dirs w)"
  shows "\<forall>d\<in>set (dirs (cleanup w)). \<not> under tmp d"
    and "\<forall>p\<in>set (files (cleanup w)). \<not> under tmp (fst p)"
  using assms by (auto simp: cleanup_def Let_def)

text \<open>
  C3, as the code has it. When the engine has its temporary directory and \<open>mkdir\<close>
  does not fail, the directory of the task exists when \<open>_execute_agent_task\<close> returns,
  whatever the outcome of the run: the function removes nothing. The directory is
  removed by \<open>cleanup\<close>, which removes the whole tree under the temporary directory
  of the engine.
\<close>

theorem task_directory_kept_until_cleanup:
  "temp_dir w = Some tmp \<and> env_mkdir_error env = None \<longrightarrow>
     path_join tmp (t_task_id task) \<in> set (dirs (snd (execute_agent_task w task env))) \<and>
     (tmp \<in> set (dirs w) \<longrightarrow>
        path_join tmp (t_task_id task) \<notin> set (dirs (cleanup (snd (execute_agent_task w task env)))))"
proof (intro impI conjI)
  assume a: "temp_dir w = Some tmp \<and> env_mkdir_error env = None"
  let ?w' = "snd (execute_agent_task w task env)"
  from a have d: "set (dirs ?w') = insert (path_join tmp (t_task_id task)) (set (dirs w))"
    by (simp add: execute_agent_task_dirs create_task_workspace_dirs)
  then show "path_join tmp (t_task_id task) \<in> set (dirs ?w')" by simp
  assume t: "tmp \<in> set (dirs w)"
  from a have "temp_dir ?w' = Some tmp" by (simp add: execute_agent_task_temp_dir)
  moreover from t d have "tmp \<in> set (dirs ?w')" by simp
  ultimately have "\<forall>d\<in>set (dirs (cleanup ?w')). \<not> under tmp d" by (rule cleanup_dirs)
  then show "path_join tmp (t_task_id task) \<notin> set (dirs (cleanup ?w'))"
    using under_path_join by blast
qed

lemma task_directory_example:
  "dirs (snd (execute_agent_task engine0 task0 env_ok))
     = [''/tmp/claude_orchestration_x'', ''/tmp/claude_orchestration_x/test_task_1''] \<and>
   dirs (cleanup (snd (execute_agent_task engine0 task0 env_ok))) = []"
  by (simp add: execute_agent_task_def create_task_workspace_def engine0_def env_ok_def
      task0_def path_join_def or_empty_def write_file_def Let_def cleanup_def under_def startswith_def)

theorem task_directory_kept_until_cleanup_witness:
  "temp_dir engine0 = Some ''/tmp/claude_orchestration_x'' \<and> env_mkdir_error env_ok = None \<and>
   ''/tmp/claude_orchestration_x'' \<in> set (dirs engine0) \<and>
   dirs (snd (execute_agent_task engine0 task0 env_ok))
     = [''/tmp/claude_orchestration_x'', ''/tmp/claude_orchestration_x/test_task_1''] \<and>
   dirs (cleanup (snd (execute_agent_task engine0 task0 env_ok))) = []"
  using task_directory_kept_until_cleanup [of engine0 "''/tmp/claude_orchestration_x''" env_ok task0]
        task_directory_example
  by (simp add: engine0_def env_ok_def)

text \<open>
  C3 as stated fails: after a run that ends well, the directory of the task is still on
  the disk.
\<close>

theorem task_directory_remains_counterexample:
  "success (projr (fst (execute_agent_task engine0 task0 env_ok))) \<and>
   ''/tmp/claude_orchestration_x/test_task_1'' \<in> set (dirs (snd (execute_agent_task engine0 task0 env_ok)))"
  by (simp add: execute_agent_task_def create_task_workspace_def engine0_def env_ok_def
      task0_def path_join_def or_empty_def write_file_def Let_def)

section \<open>Agent registry\<close>

lemma record_on_health_fields:
  "total_invocations (record_on_health now h ok rt msg) = total_invocations h + 1 \<and>
   avg_response_time (record_on_health now h ok rt msg) =
     (if avg_response_time h = 0 then rt else avg_response_time h * 0.8 + rt * 0.2)"
  by (simp add: record_on_health_def Let_def)

lemma record_agent_invocation_lookup:
  "record_agent_invocation now hm name ok rt msg name =
     Some (record_on_health now (case hm name of None \<Rightarrow> new_health name | Some h \<Rightarrow> h) ok rt msg)"
  by (simp add: record_agent_invocation_def Let_def split: option.splits)

lemma record_all_total:
  "map_option total_invocations (record_all hm name calls name) =
     (if calls = [] then map_option total_invocations (hm name)
      else Some ((case hm name of None \<Rightarrow> 0 | Some h \<Rightarrow> total_invocations h) + length calls))"
proof (induction calls arbitrary: hm)
  case Nil
  then show ?case by simp
next
  case (Cons c calls)
  obtain ok rt msg now where c: "c = (ok, rt, msg, now)" by (cases c)
  show ?case
    by (simp add: c Cons.IH record_agent_invocation_lookup record_on_health_fields new_health_def
        split: option.splits)
qed

text \<open>
  C9, as the code has it. Each recorded invocation adds one to the agent's
  \<open>total_invocations\<close>, so that after a sequence of recorded invocations of an agent
  that was not known before, the counter is the length of the sequence. The average
  response time becomes the sample itself when the stored average is 0, as it is at the
  first recorded invocation, and \<open>old * 0.8 + sample * 0.2\<close> otherwise.
\<close>

theorem record_agent_invocation_latency:
  "(\<exists>h'. record_agent_invocation now hm name ok rt msg name = Some h' \<and>
      total_invocations h' = (case hm name of None \<Rightarrow> 0 | Some h \<Rightarrow> total_invocations h) + 1 \<and>
      avg_response_time h' =
        (case hm name of
           None \<Rightarrow> rt
         | Some h \<Rightarrow> if avg_response_time h = 0 then rt else avg_response_time h * 0.8 + rt * 0.2)) \<and>
   map_option total_invocations (record_all Map.empty name calls name) =
     (if calls = [] then None else Some (length calls))"
proof (intro conjI)
  show "\<exists>h'. record_agent_invocation now hm name ok rt msg name = Some h' \<and>
      total_invocations h' = (case hm name of None \<Rightarrow> 0 | Some h \<Rightarrow> total_invocations h) + 1 \<and>
      avg_response_time h' =
        (case hm name of
           None \<Rightarrow> rt
         | Some h \<Rightarrow> if avg_response_time h = 0 then rt else avg_response_time h * 0.8 + rt * 0.2)"
    by (simp add: record_agent_invocation_lookup record_on_health_fields new_health_def
        split: option.splits)
  show "map_option total_invocations (record_all Map.empty name calls name) =
     (if calls = [] then None else Some (length calls))"
    by (simp add: record_all_total)
qed

lemma record_all_example:
  "map_option (\<lambda>h. (total_invocations h, avg_response_time h))
     (record_all Map.empty ''gad'' [(True, 10, None, 1), (True, 20, None, 2)] ''gad'')
   = Some (2, 12)"
  by (simp add: record_agent_invocation_def record_on_health_def new_health_def Let_def)

theorem record_agent_invocation_latency_witness:
  "map_option (\<lambda>h. (total_invocations h, avg_response_time h))
     (record_all Map.empty ''gad'' [(True, 10, None, 1), (True, 20, None, 2)] ''gad'')
   = Some (2, 12)"
  using record_agent_invocation_latency
          [of 2 "record_all Map.empty ''gad'' [(True, 10, None, 1)]" "''gad''" True 20 None
              "[(True, 10, None, 1), (True, 20, None, 2)]"]
        record_all_example
  by simp

text \<open>
  C9 as stated fails. At the first recorded invocation, with the sample 10, the average
  becomes 10, not \<open>0 * 0.8 + 10 * 0.2\<close>. After two successful invocations the success
  rate is 3/2, not 2/2: the counter is incremented before the number of earlier
  successes is computed from it.
\<close>

theorem record_agent_invocation_counterexample:
  "map_option avg_response_time (record_agent_invocation 1 Map.empty ''gad'' True 10 None ''gad'')
     = Some 10 \<and>
   (10::real) \<noteq> 0 * 0.8 + 10 * 0.2 \<and>
   map_option success_rate
     (record_all Map.empty ''gad'' [(True, 10, None, 1), (True, 20, None, 2)] ''gad'')
     = Some (3 / 2) \<and>
   (3 / 2 :: real) \<noteq> 2 / 2"
  by (simp add: record_agent_invocation_def record_on_health_def new_health_def Let_def)

section \<open>Feature workflow\<close>

lemma evaluate_and_select_feature_no_success:
  assumes "\<forall>r\<in>set results. \<not> success r"
  shows "evaluate_and_select_feature rank results expected language =
           Inl (Exn ''RuntimeError'' ''No successful feature specification candidates generated'')"
proof -
  from assms have "filter success results = []" by (simp add: filter_empty_conv)
  then show ?thesis by (simp add: evaluate_and_select_feature_def)
qed

text \<open>
  C8. When no agent result has \<open>success\<close>, \<open>_evaluate_and_select_feature\<close> raises the
  \<open>RuntimeError\<close> that says that no successful candidate was generated, and the feature
  command, from the return of the orchestration on, ends with its failure result and
  makes no call on the Persistence collaborator: neither \<open>save_feature\<close> nor
  \<open>archive_candidates\<close>.
\<close>

theorem no_successful_candidates:
  "(\<forall>r\<in>set results. \<not> success r) \<longrightarrow>
     evaluate_and_select_feature rank results expected language =
       Inl (Exn ''RuntimeError'' ''No successful feature specification candidates generated'') \<and>
     (all_results R = Some results \<longrightarrow>
        snd (feat_command_tail rank approve feat_path calls command_line section_id language expected R)
          = calls \<and>
        (\<exists>msg. fst (feat_command_tail rank approve feat_path calls command_line section_id language
                       expected R) = CommandFailed msg))"
proof (intro impI conjI)
  assume a: "\<forall>r\<in>set results. \<not> success r"
  then show e: "evaluate_and_select_feature rank results expected language =
       Inl (Exn ''RuntimeError'' ''No successful feature specification candidates generated'')"
    by (rule evaluate_and_select_feature_no_success)
  assume r: "all_results R = Some results"
  show "snd (feat_command_tail rank approve feat_path calls command_line section_id language expected R)
          = calls"
    using e r by (simp add: feat_command_tail_def)
  show "\<exists>msg. fst (feat_command_tail rank approve feat_path calls command_line section_id language
                       expected R) = CommandFailed msg"
    using e r by (simp add: feat_command_tail_def)
qed

theorem no_successful_candidates_witness:
  "list_all (\<lambda>r. \<not> success r) [failed0] \<and> all_results round_failed = Some [failed0] \<and>
   evaluate_and_select_feature first_occurrence_order [failed0] [''overview''] None =
     Inl (Exn ''RuntimeError'' ''No successful feature specification candidates generated'') \<and>
   feat_command_tail first_occurrence_order None feat_path0 [] ''feat 2'' ''2'' None [''overview'']
       round_failed
     = (CommandFailed ''Feature orchestration failed'', [])"
  using no_successful_candidates
          [of "[failed0]" first_occurrence_order "[''overview'']" None round_failed None feat_path0 "[]"
              "''feat 2''" "''2''"]
  by (simp add: failed0_def round_failed_def feat_command_tail_def)


section \<open>Feature evaluator\<close>

lemma unit_score_Let: "(\<And>v. unit_score (f v)) \<Longrightarrow> unit_score (Let x f)"
  by simp

lemma unit_score_prod: "(\<And>a b. unit_score (f a b)) \<Longrightarrow> unit_score (case_prod f p)"
  by (cases p) simp

lemma unit_score_if:
  "(c \<Longrightarrow> unit_score A) \<Longrightarrow> (\<not> c \<Longrightarrow> unit_score B) \<Longrightarrow> unit_score (if c then A else B)"
  by simp

lemma unit_score_option:
  "unit_score a \<Longrightarrow> (\<And>v. unit_score (f v)) \<Longrightarrow> unit_score (case_option a f x)"
  by (cases x) simp_all

lemma unit_score_clamp: "unit_score (max 0.0 (min 1.0 s), a, b)"
  by (simp add: unit_score_def)

lemmas unit_score_intros =
  unit_score_Let unit_score_prod unit_score_if unit_score_option unit_score_clamp

lemma evaluate_implementation_detail_range: "unit_score (evaluate_implementation_detail c)"
  unfolding evaluate_implementation_detail_def by (intro unit_score_intros)

lemma evaluate_technical_accuracy_range: "unit_score (evaluate_technical_accuracy c)"
  unfolding evaluate_technical_accuracy_def by (intro unit_score_intros)

lemma evaluate_clarity_range: "unit_score (evaluate_clarity c)"
  unfolding evaluate_clarity_def by (intro unit_score_intros)

lemma unit_score_Let_keep: "unit_score (f x) \<Longrightarrow> unit_score (Let x f)"
  by simp

lemma evaluate_language_specificity_range: "unit_score (evaluate_language_specificity c l)"
  unfolding evaluate_language_specificity_def
  apply (rule unit_score_Let_keep)
  apply (rule unit_score_Let)
  apply (rule unit_score_if)
   apply (rule unit_score_if)
    apply (simp add: unit_score_def)
   apply (simp add: unit_score_def)
  apply (intro unit_score_intros)
  done

lemma structure_score_range:
  "0 \<le> structure_score (validate_structure rank c e) \<and> structure_score (validate_structure rank c e) \<le> 1"
  by (simp add: validate_structure_def Let_def split_beta divide_nonneg_nonneg)

lemma structure_score_invalid:
  assumes "\<not> is_valid (validate_structure rank c e)"
  shows "structure_score (validate_structure rank c e) < 1"
proof -
  let ?m = "set_difference_list rank e (extract_section_structure c)"
  let ?x = "set_difference_list rank (extract_section_structure c) e"
  from assms have ne: "e \<noteq> []" and m: "?m \<noteq> []"
    by (auto simp: validate_structure_def Let_def split: if_splits)
  then have "0 < real (length e)" "0 < real (length ?m)" by simp_all
  then have "0 < (real (length ?m) * 0.3 + real (length ?x) * 0.1) / real (length e)"
    by (intro divide_pos_pos add_pos_nonneg mult_pos_pos mult_nonneg_nonneg) simp_all
  then show ?thesis using ne m
    by (simp add: validate_structure_def Let_def)
qed

lemma evaluate_feature_validation:
  "structural_validation (evaluate_feature rank c e l m) = validate_structure rank c (or_empty e)"
  by (simp add: evaluate_feature_def Let_def split_beta)

lemma evaluate_feature_overall:
  "overall_score (evaluate_feature rank c e l m) =
     structure_score (validate_structure rank c (or_empty e)) * 0.30 +
     fst (evaluate_implementation_detail c) * 0.25 +
     fst (evaluate_language_specificity c l) * 0.20 +
     fst (evaluate_technical_accuracy c) * 0.15 +
     fst (evaluate_clarity c) * 0.10"
  by (simp add: evaluate_feature_def Let_def split_beta w_structural_integrity_def
      w_implementation_detail_def w_language_specificity_def w_technical_accuracy_def w_clarity_def)

lemma evaluate_feature_overall_bounds:
  "0 \<le> overall_score (evaluate_feature rank c e l m)"
  "\<not> is_valid (structural_validation (evaluate_feature rank c e l m)) \<Longrightarrow>
     overall_score (evaluate_feature rank c e l m) < 1"
proof -
  have s: "0 \<le> structure_score (validate_structure rank c (or_empty e))"
    "structure_score (validate_structure rank c (or_empty e)) \<le> 1"
    using structure_score_range by blast+
  have a: "0 \<le> fst (evaluate_implementation_detail c)" "fst (evaluate_implementation_detail c) \<le> 1"
    using evaluate_implementation_detail_range[of c] by (simp_all add: unit_score_def)
  have b: "0 \<le> fst (evaluate_language_specificity c l)" "fst (evaluate_language_specificity c l) \<le> 1"
    using evaluate_language_specificity_range[of c l] by (simp_all add: unit_score_def)
  have t: "0 \<le> fst (evaluate_technical_accuracy c)" "fst (evaluate_technical_accuracy c) \<le> 1"
    using evaluate_technical_accuracy_range[of c] by (simp_all add: unit_score_def)
  have d: "0 \<le> fst (evaluate_clarity c)" "fst (evaluate_clarity c) \<le> 1"
    using evaluate_clarity_range[of c] by (simp_all add: unit_score_def)
  show "0 \<le> overall_score (evaluate_feature rank c e l m)"
    unfolding evaluate_feature_overall using s a b t d by simp
  assume "\<not> is_valid (structural_validation (evaluate_feature rank c e l m))"
  then have "structure_score (validate_structure rank c (or_empty e)) < 1"
    by (simp add: evaluate_feature_validation structure_score_invalid)
  then show "overall_score (evaluate_feature rank c e l m) < 1"
    unfolding evaluate_feature_overall using a b t d by simp
qed

lemma sort_desc_nth_mono:
  assumes "i < j" "j < length (sort_desc k xs)"
  shows "k (sort_desc k xs ! j) \<le> k (sort_desc k xs ! i)"
proof -
  have "sorted (map (\<lambda>x. - k x) (sort_desc k xs))" by (simp add: sort_desc_def)
  from sorted_nth_mono[OF this, of i j] assms show ?thesis by simp
qed

lemma set_sort_desc: "set (sort_desc k xs) = set xs"
  by (simp add: sort_desc_def)

lemma length_sort_desc: "length (sort_desc k xs) = length xs"
  by (simp add: sort_desc_def)

lemma rank_features_Inr:
  assumes "rank_features rank cands e l = Inr ranked"
  shows "ranked = sort_desc sort_key_feat
           (concat (map (\<lambda>(i, cand).
                      let content = candidate_text cand in
                      if content \<noteq> [] then [(i, evaluate_feature rank content e l (Some cand))] else [])
                    (enumerate 0 cands)))"
  using assms by (simp add: rank_features_def Let_def split: list.splits)

lemma rank_features_elems:
  assumes "rank_features rank cands e l = Inr ranked" "x \<in> set ranked"
  shows "\<exists>c m. snd x = evaluate_feature rank c e l m"
proof -
  from assms(2) have "x \<in> set (concat (map (\<lambda>(i, cand).
                      let content = candidate_text cand in
                      if content \<noteq> [] then [(i, evaluate_feature rank content e l (Some cand))] else [])
                    (enumerate 0 cands)))"
    unfolding rank_features_Inr[OF assms(1)] set_sort_desc .
  then obtain a b where "x = (a, evaluate_feature rank (candidate_text b) e l (Some b))"
    by (auto simp: Let_def split: if_splits)
  then have "snd x = evaluate_feature rank (candidate_text b) e l (Some b)" by simp
  then show ?thesis by blast
qed

lemma sort_key_feat_valid:
  "is_valid (structural_validation s) \<Longrightarrow> sort_key_feat (i, s) = overall_score s"
  by (simp add: sort_key_feat_def)

lemma sort_key_feat_invalid:
  "\<not> is_valid (structural_validation s) \<Longrightarrow> sort_key_feat (i, s) = overall_score s - 1"
  by (simp add: sort_key_feat_def)

text \<open>
  C5. In the list that \<open>rank_features\<close> returns, every candidate whose structural
  validation is not valid stands after every candidate whose structural validation is
  valid, whatever their overall scores. The sort key of an invalid candidate, its
  overall score minus 1, is below the sort key of every valid candidate as soon as the
  overall scores lie between 0 and 1, as the scores of \<open>evaluate_feature\<close> do (an
  invalid candidate has an overall score below 1): so an invalid candidate with 0.95
  ranks below a valid one with 0.40.
\<close>

theorem rank_features_invalid_below_valid:
  "(rank_features rank cands e l = Inr ranked \<and> i < length ranked \<and> j < length ranked \<and>
    \<not> is_valid (structural_validation (snd (ranked ! i))) \<and>
    is_valid (structural_validation (snd (ranked ! j))) \<longrightarrow> j < i) \<and>
   (\<not> is_valid (structural_validation a) \<and> is_valid (structural_validation b) \<and>
    overall_score a < 1 \<and> 0 \<le> overall_score b \<longrightarrow> sort_key_feat (m, a) < sort_key_feat (n, b))"
proof (intro conjI impI)
  assume h: "rank_features rank cands e l = Inr ranked \<and> i < length ranked \<and> j < length ranked \<and>
    \<not> is_valid (structural_validation (snd (ranked ! i))) \<and>
    is_valid (structural_validation (snd (ranked ! j)))"
  let ?scored = "concat (map (\<lambda>(i, cand).
                      let content = candidate_text cand in
                      if content \<noteq> [] then [(i, evaluate_feature rank content e l (Some cand))] else [])
                    (enumerate 0 cands))"
  from h have r: "ranked = sort_desc sort_key_feat ?scored" by (simp add: rank_features_Inr)
  from h have rf: "rank_features rank cands e l = Inr ranked" by simp
  from h have mi: "ranked ! i \<in> set ranked" and mj: "ranked ! j \<in> set ranked" by simp_all
  from rank_features_elems[OF rf mi] obtain ci mi where
    ei: "snd (ranked ! i) = evaluate_feature rank ci e l mi" by blast
  from rank_features_elems[OF rf mj] obtain cj mj where
    ej: "snd (ranked ! j) = evaluate_feature rank cj e l mj" by blast
  from h ei have "overall_score (snd (ranked ! i)) < 1"
    using evaluate_feature_overall_bounds(2)[of rank ci e l mi] by simp
  with h have ki: "sort_key_feat (ranked ! i) < 0"
    using sort_key_feat_invalid[of "snd (ranked ! i)" "fst (ranked ! i)"] by simp
  from ej have "0 \<le> overall_score (snd (ranked ! j))"
    using evaluate_feature_overall_bounds(1)[of rank cj e l mj] by simp
  with h have kj: "0 \<le> sort_key_feat (ranked ! j)"
    using sort_key_feat_valid[of "snd (ranked ! j)" "fst (ranked ! j)"] by simp
  show "j < i"
  proof (rule ccontr)
    assume "\<not> j < i"
    moreover from h have "i \<noteq> j" by auto
    ultimately have "i < j" by simp
    moreover from h r have "j < length (sort_desc sort_key_feat ?scored)" by simp
    ultimately have "sort_key_feat (ranked ! j) \<le> sort_key_feat (ranked ! i)"
      unfolding r by (rule sort_desc_nth_mono)
    with ki kj show False by simp
  qed
next
  assume "\<not> is_valid (structural_validation a) \<and> is_valid (structural_validation b) \<and>
    overall_score a < 1 \<and> 0 \<le> overall_score b"
  then show "sort_key_feat (m, a) < sort_key_feat (n, b)"
    by (simp add: sort_key_feat_def)
qed

lemma rank_features_example:
  "\<not> isl (rank_features first_occurrence_order [cand_rich, cand_header] (Some [''overview'']) None) \<and>
   map (\<lambda>x. (fst x, is_valid (structural_validation (snd x)), overall_score (snd x)))
     (projr (rank_features first_occurrence_order [cand_rich, cand_header] (Some [''overview'']) None))
   = [(1, True, 101 / 200), (0, False, 197 / 325)]"
  by code_simp

theorem rank_features_invalid_below_valid_witness:
  "\<not> isl (rank_features first_occurrence_order [cand_rich, cand_header] (Some [''overview'']) None) \<and>
   map (\<lambda>x. (fst x, is_valid (structural_validation (snd x)), overall_score (snd x)))
     (projr (rank_features first_occurrence_order [cand_rich, cand_header] (Some [''overview'']) None))
   = [(1, True, 101 / 200), (0, False, 197 / 325)] \<and>
   (101 / 200 :: real) < 197 / 325"
  using rank_features_invalid_below_valid
          [of first_occurrence_order "[cand_rich, cand_header]" "Some [''overview'']" None
              "projr (rank_features first_occurrence_order [cand_rich, cand_header] (Some [''overview'']) None)"
              1 0]
        rank_features_example
  by simp


section \<open>Ranking\<close>

lemma concat_map_if:
  "concat (map (\<lambda>(i, c). let content = candidate_text c in
                           if content \<noteq> [] then [(i, F content c)] else []) xs)
     = map (\<lambda>(i, c). (i, F (candidate_text c) c)) (filter (\<lambda>(i, c). candidate_text c \<noteq> []) xs)"
  by (induction xs) (auto simp: Let_def)

lemma scorable_nonempty:
  assumes "\<exists>c\<in>set cands. candidate_text c \<noteq> []"
  shows "scorable cands \<noteq> []"
proof -
  from assms obtain c where c: "c \<in> set cands" "candidate_text c \<noteq> []" by blast
  then obtain i where "i < length cands" "cands ! i = c" by (auto simp: in_set_conv_nth)
  then have "(i, c) \<in> set (enumerate 0 cands)" by (simp add: in_set_enumerate_eq)
  with c have "(i, c) \<in> set (scorable cands)" by (simp add: scorable_def)
  then show ?thesis by auto
qed

lemma case_sort_desc:
  "(case sort_desc k xs of [] \<Rightarrow> Inl err | b # others \<Rightarrow> Inr (sort_desc k xs)) =
     (if xs = [] then Inl err else Inr (sort_desc k xs))"
proof (cases "xs = []")
  case True
  then show ?thesis by (simp add: sort_desc_def)
next
  case False
  then have "sort_desc k xs \<noteq> []"
    using length_sort_desc[of k xs] by (metis length_0_conv)
  then obtain b others where "sort_desc k xs = b # others" by (cases "sort_desc k xs") auto
  with False show ?thesis by simp
qed

lemma rank_features_scorable:
  "rank_features rank cands e l =
     (if scorable cands = [] then Inl (Exn ''IndexError'' ''list index out of range'')
      else Inr (sort_desc sort_key_feat
                  (map (\<lambda>(i, c). (i, evaluate_feature rank (candidate_text c) e l (Some c)))
                     (scorable cands))))"
proof -
  have "rank_features rank cands e l =
          (case sort_desc sort_key_feat
                  (map (\<lambda>(i, c). (i, evaluate_feature rank (candidate_text c) e l (Some c)))
                     (scorable cands)) of
             [] \<Rightarrow> Inl (Exn ''IndexError'' ''list index out of range'')
           | b # others \<Rightarrow>
               Inr (sort_desc sort_key_feat
                  (map (\<lambda>(i, c). (i, evaluate_feature rank (candidate_text c) e l (Some c)))
                     (scorable cands))))"
    unfolding rank_features_def scorable_def
      concat_map_if[where F = "\<lambda>content c. evaluate_feature rank content e l (Some c)"]
    by (simp only: Let_def)
  then show ?thesis by (simp only: case_sort_desc map_is_Nil_conv)
qed

lemma rank_designs_scorable:
  "rank_designs criteria cands l =
     (if scorable cands = [] then Inl (Exn ''IndexError'' ''list index out of range'')
      else Inr (sort_desc (\<lambda>x. d_overall_score (snd x))
                  (map (\<lambda>(i, c). (i, evaluate_design criteria (candidate_text c) l (Some c)))
                     (scorable cands))))"
proof -
  have "rank_designs criteria cands l =
          (case sort_desc (\<lambda>x. d_overall_score (snd x))
                  (map (\<lambda>(i, c). (i, evaluate_design criteria (candidate_text c) l (Some c)))
                     (scorable cands)) of
             [] \<Rightarrow> Inl (Exn ''IndexError'' ''list index out of range'')
           | b # others \<Rightarrow>
               Inr (sort_desc (\<lambda>x. d_overall_score (snd x))
                  (map (\<lambda>(i, c). (i, evaluate_design criteria (candidate_text c) l (Some c)))
                     (scorable cands))))"
    unfolding rank_designs_def scorable_def
      concat_map_if[where F = "\<lambda>content c. evaluate_design criteria content l (Some c)"]
    by (simp only: Let_def)
  then show ?thesis by (simp only: case_sort_desc map_is_Nil_conv)
qed

text \<open>
  C7, as the code has it. \<open>rank_features\<close> and \<open>rank_designs\<close> do not score a
  candidate whose text is empty or missing: it is left out of the ranking. When at least
  one candidate has a non-empty text, the ranking completes and returns the scored
  candidates with a non-empty text, each once, under its place in the list of
  candidates, in descending order of the ranking key: the sort key of
  \<open>rank_features\<close>, the overall score in \<open>rank_designs\<close>.
\<close>

theorem ranking_skips_empty_candidates:
  "(\<exists>c\<in>set cands. candidate_text c \<noteq> []) \<longrightarrow>
     (\<exists>ranked. rank_features rank cands e l = Inr ranked \<and>
        length ranked = length (scorable cands) \<and>
        set ranked = (\<lambda>(i, c). (i, evaluate_feature rank (candidate_text c) e l (Some c))) ` set (scorable cands) \<and>
        (\<forall>i j. i < j \<and> j < length ranked \<longrightarrow> sort_key_feat (ranked ! j) \<le> sort_key_feat (ranked ! i))) \<and>
     (\<exists>ranked. rank_designs criteria cands l = Inr ranked \<and>
        length ranked = length (scorable cands) \<and>
        set ranked = (\<lambda>(i, c). (i, evaluate_design criteria (candidate_text c) l (Some c))) ` set (scorable cands) \<and>
        (\<forall>i j. i < j \<and> j < length ranked \<longrightarrow>
           d_overall_score (snd (ranked ! j)) \<le> d_overall_score (snd (ranked ! i))))"
proof (intro impI conjI)
  assume "\<exists>c\<in>set cands. candidate_text c \<noteq> []"
  then have ne: "scorable cands \<noteq> []" by (rule scorable_nonempty)
  let ?F = "sort_desc sort_key_feat
              (map (\<lambda>(i, c). (i, evaluate_feature rank (candidate_text c) e l (Some c))) (scorable cands))"
  let ?D = "sort_desc (\<lambda>x. d_overall_score (snd x))
              (map (\<lambda>(i, c). (i, evaluate_design criteria (candidate_text c) l (Some c))) (scorable cands))"
  have f: "rank_features rank cands e l = Inr ?F" using ne by (simp add: rank_features_scorable)
  have d: "rank_designs criteria cands l = Inr ?D" using ne by (simp add: rank_designs_scorable)
  have fs: "\<forall>i j. i < j \<and> j < length ?F \<longrightarrow> sort_key_feat (?F ! j) \<le> sort_key_feat (?F ! i)"
    using sort_desc_nth_mono[of _ _ sort_key_feat] by blast
  have ds: "\<forall>i j. i < j \<and> j < length ?D \<longrightarrow>
              d_overall_score (snd (?D ! j)) \<le> d_overall_score (snd (?D ! i))"
    using sort_desc_nth_mono[of _ _ "\<lambda>x. d_overall_score (snd x)"] by blast
  show "\<exists>ranked. rank_features rank cands e l = Inr ranked \<and>
        length ranked = length (scorable cands) \<and>
        set ranked = (\<lambda>(i, c). (i, evaluate_feature rank (candidate_text c) e l (Some c))) ` set (scorable cands) \<and>
        (\<forall>i j. i < j \<and> j < length ranked \<longrightarrow> sort_key_feat (ranked ! j) \<le> sort_key_feat (ranked ! i))"
    using f fs by (intro exI[of _ ?F]) (simp add: length_sort_desc set_sort_desc)
  show "\<exists>ranked. rank_designs criteria cands l = Inr ranked \<and>
        length ranked = length (scorable cands) \<and>
        set ranked = (\<lambda>(i, c). (i, evaluate_design criteria (candidate_text c) l (Some c))) ` set (scorable cands) \<and>
        (\<forall>i j. i < j \<and> j < length ranked \<longrightarrow>
           d_overall_score (snd (ranked ! j)) \<le> d_overall_score (snd (ranked ! i)))"
    using d ds by (intro exI[of _ ?D]) (simp add: length_sort_desc set_sort_desc)
qed

lemma ranking_example:
  "scorable [cand_plain, cand_empty, cand_rich] = [(0, cand_plain), (2, cand_rich)] \<and>
   map (\<lambda>x. (fst x, d_overall_score (snd x)))
     (projr (rank_designs default_criteria [cand_plain, cand_empty, cand_rich] None))
     = [(2, 14 / 25), (0, 37 / 200)] \<and>
   map (\<lambda>x. (fst x, sort_key_feat x))
     (projr (rank_features first_occurrence_order [cand_plain, cand_empty, cand_rich] None None))
     = [(2, 181 / 260), (0, 19 / 40)]"
  by code_simp

theorem ranking_skips_empty_candidates_witness:
  "candidate_text cand_rich \<noteq> [] \<and>
   scorable [cand_plain, cand_empty, cand_rich] = [(0, cand_plain), (2, cand_rich)] \<and>
   map (\<lambda>x. (fst x, d_overall_score (snd x)))
     (projr (rank_designs default_criteria [cand_plain, cand_empty, cand_rich] None))
     = [(2, 14 / 25), (0, 37 / 200)] \<and>
   map (\<lambda>x. (fst x, sort_key_feat x))
     (projr (rank_features first_occurrence_order [cand_plain, cand_empty, cand_rich] None None))
     = [(2, 181 / 260), (0, 19 / 40)]"
proof -
  note th = ranking_skips_empty_candidates
         [of "[cand_plain, cand_empty, cand_rich]" first_occurrence_order None None default_criteria]
  have t: "candidate_text cand_rich \<noteq> []" by (simp add: candidate_text_def cand_rich_def)
  show ?thesis using th t ranking_example by (elim conjE) (intro conjI, assumption+)
qed

text \<open>
  C7 as stated fails. With one candidate, whose text is empty, both rankings end with
  \<open>IndexError\<close>: the log line after the sort reads the first element of an empty list.
  With an empty candidate and a candidate that has a text, the ranking holds the second
  alone: the first has no score at all.
\<close>

theorem ranking_empty_candidates_counterexample:
  "rank_features first_occurrence_order [cand_empty] None None
     = Inl (Exn ''IndexError'' ''list index out of range'') \<and>
   rank_designs default_criteria [cand_empty] None
     = Inl (Exn ''IndexError'' ''list index out of range'') \<and>
   map fst (projr (rank_designs default_criteria [cand_empty, cand_header] None)) = [1]"
  by (simp add: rank_designs_def rank_features_def sort_desc_def Let_def
      candidate_text_def cand_empty_def cand_header_def)

section \<open>Determinism of the scores\<close>

lemma set_difference_list_empty:
  "set_difference_list rank xs ys = [] \<longleftrightarrow> set xs - set ys = {}"
  using set_set_difference_list[of rank xs ys] by (metis set_empty)

lemma validate_structure_rank:
  "structure_score (validate_structure r1 c e) = structure_score (validate_structure r2 c e) \<and>
   is_valid (validate_structure r1 c e) = is_valid (validate_structure r2 c e) \<and>
   set (missing_sections (validate_structure r1 c e)) = set (missing_sections (validate_structure r2 c e)) \<and>
   length (missing_sections (validate_structure r1 c e))
     = length (missing_sections (validate_structure r2 c e))"
  by (simp add: validate_structure_def Let_def length_set_difference_list set_difference_list_empty
      set_set_difference_list)

lemma evaluate_feature_fields:
  "overall_score (evaluate_feature r c e l m) =
     structure_score (validate_structure r c (or_empty e)) * w_structural_integrity +
     fst (evaluate_implementation_detail c) * w_implementation_detail +
     fst (evaluate_language_specificity c l) * w_language_specificity +
     fst (evaluate_technical_accuracy c) * w_technical_accuracy +
     fst (evaluate_clarity c) * w_clarity"
  "structural_integrity (evaluate_feature r c e l m) = structure_score (validate_structure r c (or_empty e))"
  "implementation_detail (evaluate_feature r c e l m) = fst (evaluate_implementation_detail c)"
  "language_specificity (evaluate_feature r c e l m) = fst (evaluate_language_specificity c l)"
  "technical_accuracy (evaluate_feature r c e l m) = fst (evaluate_technical_accuracy c)"
  "clarity (evaluate_feature r c e l m) = fst (evaluate_clarity c)"
  "strengths (evaluate_feature r c e l m) =
     (if is_valid (validate_structure r c (or_empty e)) then [''Preserves required section structure''] else []) @
     fst (snd (evaluate_implementation_detail c)) @ fst (snd (evaluate_language_specificity c l)) @
     fst (snd (evaluate_technical_accuracy c)) @ fst (snd (evaluate_clarity c))"
  "weaknesses (evaluate_feature r c e l m) =
     (if is_valid (validate_structure r c (or_empty e)) then []
      else [''Missing required sections: '' @
            join '', '' (missing_sections (validate_structure r c (or_empty e)))]) @
     snd (snd (evaluate_implementation_detail c)) @ snd (snd (evaluate_language_specificity c l)) @
     snd (snd (evaluate_technical_accuracy c)) @ snd (snd (evaluate_clarity c))"
  by (simp_all add: evaluate_feature_def Let_def split_beta)

lemma evaluate_feature_feedback:
  "feedback (evaluate_feature r c e l m) = feat_feedback (overall_score (evaluate_feature r c e l m))"
  by (simp add: evaluate_feature_def Let_def split_beta)

text \<open>
  C6, as the code has it. \<open>evaluate_design\<close> and \<open>evaluate_feature\<close> read nothing but
  their arguments and the constants of the evaluator, and the \<open>metadata\<close> argument is
  not used. The one thing outside the arguments that \<open>evaluate_feature\<close> depends on is
  the order in which Python iterates over a set, which is the same for two calls in one
  interpreter process and may differ between processes. So \<open>evaluate_design\<close> returns
  the same score record on every call, and so does \<open>evaluate_feature\<close> in one
  iteration order. Whatever the iteration orders of two calls are, the overall score,
  the scores of the criteria, the feedback and the strengths are the same, and the
  weaknesses are the same with one exception: when sections are missing, the first
  weakness names the missing sections in the iteration order, so that two calls name
  the same sections, possibly in another order.
\<close>

theorem scoring_deterministic:
  "evaluate_design criteria content language m1 = evaluate_design criteria content language m2 \<and>
   evaluate_feature r1 content expected language m1 = evaluate_feature r1 content expected language m2 \<and>
   overall_score (evaluate_feature r1 content expected language m1)
     = overall_score (evaluate_feature r2 content expected language m2) \<and>
   structural_integrity (evaluate_feature r1 content expected language m1)
     = structural_integrity (evaluate_feature r2 content expected language m2) \<and>
   implementation_detail (evaluate_feature r1 content expected language m1)
     = implementation_detail (evaluate_feature r2 content expected language m2) \<and>
   language_specificity (evaluate_feature r1 content expected language m1)
     = language_specificity (evaluate_feature r2 content expected language m2) \<and>
   technical_accuracy (evaluate_feature r1 content expected language m1)
     = technical_accuracy (evaluate_feature r2 content expected language m2) \<and>
   clarity (evaluate_feature r1 content expected language m1)
     = clarity (evaluate_feature r2 content expected language m2) \<and>
   feedback (evaluate_feature r1 content expected language m1)
     = feedback (evaluate_feature r2 content expected language m2) \<and>
   strengths (evaluate_feature r1 content expected language m1)
     = strengths (evaluate_feature r2 content expected language m2) \<and>
   length (weaknesses (evaluate_feature r1 content expected language m1))
     = length (weaknesses (evaluate_feature r2 content expected language m2)) \<and>
   (is_valid (validate_structure r1 content (or_empty expected)) \<longrightarrow>
      weaknesses (evaluate_feature r1 content expected language m1)
        = weaknesses (evaluate_feature r2 content expected language m2)) \<and>
   (\<not> is_valid (validate_structure r1 content (or_empty expected)) \<longrightarrow>
      tl (weaknesses (evaluate_feature r1 content expected language m1))
        = tl (weaknesses (evaluate_feature r2 content expected language m2)) \<and>
      hd (weaknesses (evaluate_feature r1 content expected language m1))
        = ''Missing required sections: '' @
          join '', '' (missing_sections (validate_structure r1 content (or_empty expected))) \<and>
      hd (weaknesses (evaluate_feature r2 content expected language m2))
        = ''Missing required sections: '' @
          join '', '' (missing_sections (validate_structure r2 content (or_empty expected))) \<and>
      set (missing_sections (validate_structure r1 content (or_empty expected)))
        = set (missing_sections (validate_structure r2 content (or_empty expected)))) \<and>
   (missing_sections (validate_structure r1 content (or_empty expected))
      = missing_sections (validate_structure r2 content (or_empty expected)) \<longrightarrow>
    weaknesses (evaluate_feature r1 content expected language m1)
      = weaknesses (evaluate_feature r2 content expected language m2))"
proof -
  have v: "structure_score (validate_structure r1 content (or_empty expected))
             = structure_score (validate_structure r2 content (or_empty expected))"
    "is_valid (validate_structure r1 content (or_empty expected))
             = is_valid (validate_structure r2 content (or_empty expected))"
    "set (missing_sections (validate_structure r1 content (or_empty expected)))
        = set (missing_sections (validate_structure r2 content (or_empty expected)))"
    using validate_structure_rank[of r1 content "or_empty expected" r2] by simp_all
  have d: "evaluate_design criteria content language m1 = evaluate_design criteria content language m2"
    by (simp add: evaluate_design_def)
  have f: "evaluate_feature r1 content expected language m1 = evaluate_feature r1 content expected language m2"
    by (simp add: evaluate_feature_def)
  have o: "overall_score (evaluate_feature r1 content expected language m1)
     = overall_score (evaluate_feature r2 content expected language m2)"
    unfolding evaluate_feature_fields using v by simp
  show ?thesis
    unfolding evaluate_feature_feedback o
    unfolding evaluate_feature_fields using v d f by simp
qed

lemma missing_sections_example:
  "missing_sections (validate_structure first_occurrence_order ''plain words'' [''overview'', ''api''])
     = [''overview'', ''api''] \<and>
   missing_sections (validate_structure shorter_first ''plain words'' [''overview'', ''api''])
     = [''api'', ''overview''] \<and>
   \<not> is_valid (validate_structure first_occurrence_order ''plain words'' [''overview'', ''api'']) \<and>
   \<not> is_valid (validate_structure shorter_first ''plain words'' [''overview'', ''api''])"
  by code_simp

lemma weaknesses_example:
  "hd (weaknesses (evaluate_feature first_occurrence_order ''plain words''
         (Some [''overview'', ''api'']) None None))
     = ''Missing required sections: overview, api''"
  "hd (weaknesses (evaluate_feature shorter_first ''plain words''
         (Some [''overview'', ''api'']) None None))
     = ''Missing required sections: api, overview''"
  using missing_sections_example by (simp_all add: evaluate_feature_fields or_empty_def)

theorem scoring_deterministic_witness:
  "\<not> is_valid (validate_structure first_occurrence_order ''plain words''
         (or_empty (Some [''overview'', ''api'']))) \<and>
   overall_score (evaluate_feature first_occurrence_order ''plain words''
         (Some [''overview'', ''api'']) None None)
     = overall_score (evaluate_feature shorter_first ''plain words''
         (Some [''overview'', ''api'']) None (Some cand_plain)) \<and>
   tl (weaknesses (evaluate_feature first_occurrence_order ''plain words''
         (Some [''overview'', ''api'']) None None))
     = tl (weaknesses (evaluate_feature shorter_first ''plain words''
         (Some [''overview'', ''api'']) None (Some cand_plain)))"
proof -
  note th = scoring_deterministic
         [of default_criteria "''plain words''" None None "Some cand_plain" first_occurrence_order
             "Some [''overview'', ''api'']" shorter_first]
  from missing_sections_example
  have v: "\<not> is_valid (validate_structure first_occurrence_order ''plain words''
         (or_empty (Some [''overview'', ''api''])))"
    by (simp add: or_empty_def)
  from th have o: "overall_score (evaluate_feature first_occurrence_order ''plain words''
         (Some [''overview'', ''api'']) None None)
     = overall_score (evaluate_feature shorter_first ''plain words''
         (Some [''overview'', ''api'']) None (Some cand_plain))"
    by (elim conjE) assumption
  from th have "\<not> is_valid (validate_structure first_occurrence_order ''plain words''
         (or_empty (Some [''overview'', ''api'']))) \<longrightarrow>
      tl (weaknesses (evaluate_feature first_occurrence_order ''plain words''
         (Some [''overview'', ''api'']) None None))
        = tl (weaknesses (evaluate_feature shorter_first ''plain words''
         (Some [''overview'', ''api'']) None (Some cand_plain))) \<and>
      hd (weaknesses (evaluate_feature first_occurrence_order ''plain words''
         (Some [''overview'', ''api'']) None None))
        = ''Missing required sections: '' @
          join '', '' (missing_sections (validate_structure first_occurrence_order ''plain words''
             (or_empty (Some [''overview'', ''api''])))) \<and>
      hd (weaknesses (evaluate_feature shorter_first ''plain words''
         (Some [''overview'', ''api'']) None (Some cand_plain)))
        = ''Missing required sections: '' @
          join '', '' (missing_sections (validate_structure shorter_first ''plain words''
             (or_empty (Some [''overview'', ''api''])))) \<and>
      set (missing_sections (validate_structure first_occurrence_order ''plain words''
             (or_empty (Some [''overview'', ''api'']))))
        = set (missing_sections (validate_structure shorter_first ''plain words''
             (or_empty (Some [''overview'', ''api'']))))"
    by (elim conjE) assumption
  from this v have "tl (weaknesses (evaluate_feature first_occurrence_order ''plain words''
         (Some [''overview'', ''api'']) None None))
        = tl (weaknesses (evaluate_feature shorter_first ''plain words''
         (Some [''overview'', ''api'']) None (Some cand_plain)))"
    by (elim impE conjE) assumption+
  with v o show ?thesis by (intro conjI) assumption+
qed

text \<open>
  C6 as stated fails. With the expected sections \<open>overview\<close> and \<open>api\<close> and a document
  that has neither, an iteration order that lists \<open>overview\<close> first and one that lists
  \<open>api\<close> first give two different first weaknesses, and so two different lists of
  weaknesses for the same content.
\<close>

theorem scoring_order_counterexample:
  "hd (weaknesses (evaluate_feature first_occurrence_order ''plain words''
         (Some [''overview'', ''api'']) None None))
     = ''Missing required sections: overview, api'' \<and>
   hd (weaknesses (evaluate_feature shorter_first ''plain words''
         (Some [''overview'', ''api'']) None None))
     = ''Missing required sections: api, overview'' \<and>
   weaknesses (evaluate_feature first_occurrence_order ''plain words''
      (Some [''overview'', ''api'']) None None)
   \<noteq> weaknesses (evaluate_feature shorter_first ''plain words''
      (Some [''overview'', ''api'']) None None)"
proof (intro conjI)
  show "hd (weaknesses (evaluate_feature first_occurrence_order ''plain words''
         (Some [''overview'', ''api'']) None None))
     = ''Missing required sections: overview, api''"
    by (rule weaknesses_example(1))
  show "hd (weaknesses (evaluate_feature shorter_first ''plain words''
         (Some [''overview'', ''api'']) None None))
     = ''Missing required sections: api, overview''"
    by (rule weaknesses_example(2))
  show "weaknesses (evaluate_feature first_occurrence_order ''plain words''
      (Some [''overview'', ''api'']) None None)
   \<noteq> weaknesses (evaluate_feature shorter_first ''plain words''
      (Some [''overview'', ''api'']) None None)"
  proof
    assume "weaknesses (evaluate_feature first_occurrence_order ''plain words''
        (Some [''overview'', ''api'']) None None)
     = weaknesses (evaluate_feature shorter_first ''plain words''
        (Some [''overview'', ''api'']) None None)"
    then have "hd (weaknesses (evaluate_feature first_occurrence_order ''plain words''
           (Some [''overview'', ''api'']) None None))
       = hd (weaknesses (evaluate_feature shorter_first ''plain words''
           (Some [''overview'', ''api'']) None None))" by (rule arg_cong)
    then have "''Missing required sections: overview, api'' = ''Missing required sections: api, overview''"
      unfolding weaknesses_example .
    then show False by simp
  qed
qed

end
